theory Spec2Isabelle
  imports Complex_Main "HOL-Library.Log_Nat"
begin

section \<open>JavaScript numbers\<close>

text \<open>
  The scorer computes with the \<open>number\<close> type of JavaScript, which is IEEE 754 binary64.
  A number is modelled as a finite value, one of the two infinities, the negative zero or
  NaN; \<open>Fin 0\<close> is the positive zero.  A finite value that the program holds is a binary64
  number: a real \<open>m * 2 ^ q\<close> with \<open>\<bar>m\<bar> < 2 ^ 53\<close> and \<open>- 1074 \<le> q \<le> 971\<close>.  Every arithmetic
  operation computes the exact real result and rounds it to the nearest binary64 number,
  ties going to the even significand, as ECMAScript prescribes; comparisons are exact.
\<close>

datatype jsnum = Fin real | NegZero | Infinity | NegInfinity | NaN

subsection \<open>Rounding to binary64\<close>

text \<open>The exponent of the leading bit: \<open>2 ^ binade x \<le> \<bar>x\<bar> < 2 ^ (binade x + 1)\<close> for
  \<open>x\<close> other than zero.\<close>

definition binade :: "real \<Rightarrow> int" where
  "binade x =
     (if 1 \<le> \<bar>x\<bar> then bitlen \<lfloor>\<bar>x\<bar>\<rfloor> - 1 else - bitlen (\<lceil>1 / \<bar>x\<bar>\<rceil> - 1))"

text \<open>The exponent of the unit in the last place: 52 bits below the leading bit, and
  never below the one of the subnormal numbers.\<close>

definition quantum :: "real \<Rightarrow> int" where
  "quantum x = max (binade x - 52) (- 1074)"

text \<open>The nearest integer, a tie going to the even one.\<close>

definition round_half_even :: "real \<Rightarrow> int" where
  "round_half_even t =
     (let n = \<lfloor>t\<rfloor>; r = t - of_int n
      in if r < 1 / 2 then n else if 1 / 2 < r then n + 1 else if even n then n else n + 1)"

text \<open>The binary64 number nearest to a real: an infinity beyond the largest finite
  number, a zero with the sign of the real below half the smallest subnormal.\<close>

definition round64 :: "real \<Rightarrow> jsnum" where
  "round64 x =
     (if x = 0 then Fin 0
      else let q = quantum x; m = round_half_even (x / 2 powi q); y = of_int m * 2 powi q
           in if 2 ^ 1024 \<le> \<bar>y\<bar> then (if x < 0 then NegInfinity else Infinity)
              else if m = 0 then (if x < 0 then NegZero else Fin 0)
              else Fin y)"

text \<open>A real is a binary64 number when rounding leaves it as it is.\<close>

definition is_double :: "real \<Rightarrow> bool" where
  "is_double x = (round64 x = Fin x)"

text \<open>A decimal literal of the source denotes the binary64 number nearest to it.  The
  literals that are binary64 numbers themselves, the integers and \<open>0.5\<close>, are written
  with \<open>Fin\<close>.\<close>

definition lit :: "real \<Rightarrow> jsnum" where
  "lit x = round64 x"

subsection \<open>Operations\<close>

fun val :: "jsnum \<Rightarrow> real" where
  "val (Fin r) = r"
| "val _ = 0"

fun is_zero :: "jsnum \<Rightarrow> bool" where
  "is_zero (Fin r) = (r = 0)"
| "is_zero NegZero = True"
| "is_zero _ = False"

fun is_infinite :: "jsnum \<Rightarrow> bool" where
  "is_infinite Infinity = True"
| "is_infinite NegInfinity = True"
| "is_infinite _ = False"

fun isFinite :: "jsnum \<Rightarrow> bool" where
  "isFinite (Fin r) = True"
| "isFinite NegZero = True"
| "isFinite _ = False"

text \<open>The sign bit; it is not consulted on NaN.\<close>

fun negative :: "jsnum \<Rightarrow> bool" where
  "negative (Fin r) = (r < 0)"
| "negative NegZero = True"
| "negative NegInfinity = True"
| "negative _ = False"

text \<open>\<open>x < y\<close>: false as soon as an operand is NaN; the two zeros are equal.\<close>

fun js_lt :: "jsnum \<Rightarrow> jsnum \<Rightarrow> bool" where
  "js_lt NaN y = False"
| "js_lt x NaN = False"
| "js_lt Infinity y = False"
| "js_lt x NegInfinity = False"
| "js_lt NegInfinity y = True"
| "js_lt x Infinity = True"
| "js_lt x y = (val x < val y)"

definition js_gt :: "jsnum \<Rightarrow> jsnum \<Rightarrow> bool" where
  "js_gt x y = js_lt y x"

text \<open>\<open>x <= y\<close> is \<open>y < x\<close> negated, except that it is false on NaN.\<close>

definition js_le :: "jsnum \<Rightarrow> jsnum \<Rightarrow> bool" where
  "js_le x y = (x \<noteq> NaN \<and> y \<noteq> NaN \<and> \<not> js_lt y x)"

fun js_neg :: "jsnum \<Rightarrow> jsnum" where
  "js_neg (Fin r) = (if r = 0 then NegZero else Fin (- r))"
| "js_neg NegZero = Fin 0"
| "js_neg Infinity = NegInfinity"
| "js_neg NegInfinity = Infinity"
| "js_neg NaN = NaN"

text \<open>\<open>x + y\<close>: the exact sum of two finite operands, rounded.  An exact sum of zero is
  the positive zero, unless both operands are the negative zero.\<close>

fun js_add :: "jsnum \<Rightarrow> jsnum \<Rightarrow> jsnum" where
  "js_add NaN y = NaN"
| "js_add x NaN = NaN"
| "js_add Infinity NegInfinity = NaN"
| "js_add NegInfinity Infinity = NaN"
| "js_add Infinity y = Infinity"
| "js_add x Infinity = Infinity"
| "js_add NegInfinity y = NegInfinity"
| "js_add x NegInfinity = NegInfinity"
| "js_add NegZero NegZero = NegZero"
| "js_add x y = round64 (val x + val y)"

definition js_sub :: "jsnum \<Rightarrow> jsnum \<Rightarrow> jsnum" where
  "js_sub x y = js_add x (js_neg y)"

text \<open>\<open>x * y\<close> and \<open>x / y\<close>: the exact product or quotient of finite operands other than
  zero, rounded.  The sign of a zero or of an infinity is the exclusive or of the
  operands' signs.\<close>

definition js_mul :: "jsnum \<Rightarrow> jsnum \<Rightarrow> jsnum" where
  "js_mul x y =
     (if x = NaN \<or> y = NaN then NaN
      else if (is_infinite x \<and> is_zero y) \<or> (is_zero x \<and> is_infinite y) then NaN
      else if is_infinite x \<or> is_infinite y
        then (if negative x \<noteq> negative y then NegInfinity else Infinity)
      else if is_zero x \<or> is_zero y
        then (if negative x \<noteq> negative y then NegZero else Fin 0)
      else round64 (val x * val y))"

definition js_div :: "jsnum \<Rightarrow> jsnum \<Rightarrow> jsnum" where
  "js_div x y =
     (if x = NaN \<or> y = NaN then NaN
      else if (is_infinite x \<and> is_infinite y) \<or> (is_zero x \<and> is_zero y) then NaN
      else if is_infinite x \<or> is_zero y
        then (if negative x \<noteq> negative y then NegInfinity else Infinity)
      else if is_infinite y \<or> is_zero x
        then (if negative x \<noteq> negative y then NegZero else Fin 0)
      else round64 (val x / val y))"

text \<open>\<open>Math.max\<close> and \<open>Math.min\<close>: NaN if an argument is NaN; the positive zero is
  larger than the negative zero.\<close>

definition Math_max :: "jsnum \<Rightarrow> jsnum \<Rightarrow> jsnum" where
  "Math_max x y =
     (if x = NaN \<or> y = NaN then NaN
      else if js_lt x y then y
      else if js_lt y x then x
      else if x = NegZero then y else x)"

definition Math_min :: "jsnum \<Rightarrow> jsnum \<Rightarrow> jsnum" where
  "Math_min x y =
     (if x = NaN \<or> y = NaN then NaN
      else if js_lt x y then x
      else if js_lt y x then y
      else if x = NegZero then x else y)"

section \<open>The risk scorer\<close>

record ApplicantData =
  annual_income :: jsnum
  credit_amount :: jsnum
  annuity :: jsnum
  age :: jsnum
  employment_years :: jsnum
  gender :: string
  contract_type :: string
  education :: string

text \<open>The derived features, as \<open>predictRisk\<close> computes and logs them.\<close>

record features =
  creditToIncome :: jsnum
  annuityToIncome :: jsnum
  debtToIncome :: jsnum

definition derived_features :: "ApplicantData \<Rightarrow> features" where
  "derived_features d =
     \<lparr> creditToIncome = js_div (credit_amount d) (annual_income d),
       annuityToIncome = js_div (annuity d) (annual_income d),
       debtToIncome = js_div (js_mul (annuity d) (Fin 12)) (annual_income d) \<rparr>"

text \<open>The six blocks of the heuristic, each taking the score accumulated so far.\<close>

definition credit_to_income_impact :: "jsnum \<Rightarrow> jsnum \<Rightarrow> jsnum" where
  "credit_to_income_impact ratio riskScore =
     (if js_gt ratio (Fin 3) then js_add riskScore (lit 0.08)
      else if js_gt ratio (Fin 2) then js_add riskScore (lit 0.05)
      else if js_gt ratio (Fin 1) then js_add riskScore (lit 0.03)
      else riskScore)"

definition debt_to_income_impact :: "jsnum \<Rightarrow> jsnum \<Rightarrow> jsnum" where
  "debt_to_income_impact ratio riskScore =
     (if js_gt ratio (Fin 0.5) then js_add riskScore (lit 0.06)
      else if js_gt ratio (lit 0.3) then js_add riskScore (lit 0.03)
      else riskScore)"

definition age_impact :: "jsnum \<Rightarrow> jsnum \<Rightarrow> jsnum" where
  "age_impact a riskScore =
     (if js_lt a (Fin 25) then js_add riskScore (lit 0.04)
      else if js_gt a (Fin 60) then js_add riskScore (lit 0.02)
      else riskScore)"

definition employment_impact :: "jsnum \<Rightarrow> jsnum \<Rightarrow> jsnum" where
  "employment_impact employment riskScore =
     (if js_lt employment (Fin 1) then js_add riskScore (lit 0.05)
      else if js_lt employment (Fin 3) then js_add riskScore (lit 0.03)
      else if js_gt employment (Fin 10) then js_sub riskScore (lit 0.02)
      else riskScore)"

definition contract_type_impact :: "string \<Rightarrow> jsnum \<Rightarrow> jsnum" where
  "contract_type_impact contract riskScore =
     (if contract = ''Revolving loans'' then js_add riskScore (lit 0.02) else riskScore)"

definition education_impact :: "string \<Rightarrow> jsnum \<Rightarrow> jsnum" where
  "education_impact edu riskScore =
     (if edu = ''Academic degree'' \<or> edu = ''Higher education''
        then js_sub riskScore (lit 0.02)
      else if edu = ''Lower secondary'' then js_add riskScore (lit 0.02)
      else riskScore)"

text \<open>The value of \<open>riskScore\<close> when the clamp is reached.\<close>

definition riskScore :: "features \<Rightarrow> ApplicantData \<Rightarrow> jsnum" where
  "riskScore f d =
     education_impact (education d)
       (contract_type_impact (contract_type d)
         (employment_impact (employment_years d)
           (age_impact (age d)
             (debt_to_income_impact (debtToIncome f)
               (credit_to_income_impact (creditToIncome f) (Fin 0))))))"

text \<open>
  The cutoffs are read from \<open>artifacts_meta.json\<close>, which is not part of the sources:
  they are a parameter.  They are numeric literals of a JSON document, hence finite.
\<close>

record cutoffs =
  A :: real
  B :: real
  C :: real

definition assign_bucket :: "cutoffs \<Rightarrow> jsnum \<Rightarrow> string" where
  "assign_bucket cs p =
     (if js_le p (Fin (A cs)) then ''A''
      else if js_le p (Fin (B cs)) then ''B''
      else if js_le p (Fin (C cs)) then ''C''
      else ''D'')"

record prediction =
  probability :: jsnum
  bucket :: string

text \<open>\<open>Math.random() * 0.02 - 0.01\<close>, for the value \<open>u\<close> that \<open>Math.random()\<close> returns.\<close>

definition perturbation :: "real \<Rightarrow> jsnum" where
  "perturbation u = js_sub (js_mul (Fin u) (lit 0.02)) (lit 0.01)"

definition baseProbability :: "jsnum \<Rightarrow> jsnum" where
  "baseProbability s = Math_max (Fin 0) (Math_min (lit 0.4) s)"

definition predictRisk :: "cutoffs \<Rightarrow> real \<Rightarrow> ApplicantData \<Rightarrow> prediction" where
  "predictRisk cs u d =
     (let f = derived_features d;
          s = riskScore f d;
          p = js_add (baseProbability s) (perturbation u)
      in \<lparr> probability = p, bucket = assign_bucket cs p \<rparr>)"

section \<open>The request handler\<close>

text \<open>
  The body of a request is a JSON document.  An object is a map from its keys to their
  values; a key that is absent reads as \<open>undefined\<close>, which is \<open>None\<close>.
\<close>

datatype json_value =
    JNull
  | JBool bool
  | JNum jsnum
  | JStr string
  | JArr "json_value list"
  | JObj "string \<Rightarrow> json_value option"

text \<open>What a \<open>throw\<close> carries: an \<open>Error\<close> with its message, or any other value.\<close>

datatype thrown = Error string | NonError

text \<open>
  What the JavaScript engine supplies and the sources do not fix: the conversion of a
  string and of an array or object to a number, and the messages of the \<open>TypeError\<close>s it
  raises when a property of \<open>null\<close> is read and when \<open>in\<close> is applied to a primitive.
\<close>

record runtime =
  StringToNumber :: "string \<Rightarrow> jsnum"
  ObjectToNumber :: "json_value \<Rightarrow> jsnum"
  null_read_message :: "string \<Rightarrow> string"
  in_operator_message :: "string \<Rightarrow> json_value \<Rightarrow> string"

text \<open>The coercion that \<open>/\<close>, \<open>*\<close>, \<open><\<close> and \<open>>\<close> apply to an operand.\<close>

fun ToNumber :: "runtime \<Rightarrow> json_value option \<Rightarrow> jsnum" where
  "ToNumber rt None = NaN"
| "ToNumber rt (Some JNull) = Fin 0"
| "ToNumber rt (Some (JBool b)) = (if b then Fin 1 else Fin 0)"
| "ToNumber rt (Some (JNum n)) = n"
| "ToNumber rt (Some (JStr s)) = StringToNumber rt s"
| "ToNumber rt (Some v) = ObjectToNumber rt v"

text \<open>Truthiness, as \<open>!\<close> tests it.\<close>

fun ToBoolean :: "json_value \<Rightarrow> bool" where
  "ToBoolean JNull = False"
| "ToBoolean (JBool b) = b"
| "ToBoolean (JNum n) = (\<not> is_zero n \<and> n \<noteq> NaN)"
| "ToBoolean (JStr s) = (s \<noteq> [])"
| "ToBoolean v = True"

text \<open>\<open>v.k\<close>: reading a property of \<open>null\<close> throws; a primitive and an array have none of
  the keys read here.\<close>

fun get_property :: "runtime \<Rightarrow> json_value \<Rightarrow> string \<Rightarrow> thrown + json_value option" where
  "get_property rt JNull k = Inl (Error (null_read_message rt k))"
| "get_property rt (JObj m) k = Inr (m k)"
| "get_property rt v k = Inr None"

text \<open>\<open>k in v\<close>, for the required field names: none of them is an index or \<open>length\<close> of an
  array, or inherited from a prototype; on a primitive the operator throws.\<close>

fun has_property :: "runtime \<Rightarrow> string \<Rightarrow> json_value \<Rightarrow> thrown + bool" where
  "has_property rt k (JObj m) = Inr (m k \<noteq> None)"
| "has_property rt k (JArr xs) = Inr False"
| "has_property rt k v = Inl (Error (in_operator_message rt k v))"

definition requiredFields :: "string list" where
  "requiredFields = [''annual_income'', ''credit_amount'', ''annuity'', ''age'',
     ''employment_years'', ''gender'', ''contract_type'', ''education'']"

text \<open>The loop over the required fields: it throws at the first one that is absent.\<close>

fun check_fields :: "runtime \<Rightarrow> string list \<Rightarrow> json_value \<Rightarrow> thrown + unit" where
  "check_fields rt [] data = Inr ()"
| "check_fields rt (field # rest) data =
     (case has_property rt field data of
        Inl e \<Rightarrow> Inl e
      | Inr present \<Rightarrow>
          if \<not> present then Inl (Error (''Missing required field: '' @ field))
          else check_fields rt rest data)"

text \<open>
  \<open>predictRisk(data)\<close> receives the validated object under the type \<open>ApplicantData\<close>,
  unchecked.  The scorer uses its numeric fields only as operands of arithmetic and of
  comparisons with numbers, which coerce them with \<open>ToNumber\<close>.  It uses its string fields
  only as operands of \<open>===\<close> with a string literal: a value that is not a string is
  strictly equal to none, and is represented by the empty string, which is equal to none
  of the literals either.
\<close>

fun property :: "json_value \<Rightarrow> string \<Rightarrow> json_value option" where
  "property (JObj m) k = m k"
| "property v k = None"

fun string_operand :: "json_value option \<Rightarrow> string" where
  "string_operand (Some (JStr s)) = s"
| "string_operand v = []"

definition as_applicant :: "runtime \<Rightarrow> json_value \<Rightarrow> ApplicantData" where
  "as_applicant rt data =
     \<lparr> annual_income = ToNumber rt (property data ''annual_income''),
       credit_amount = ToNumber rt (property data ''credit_amount''),
       annuity = ToNumber rt (property data ''annuity''),
       age = ToNumber rt (property data ''age''),
       employment_years = ToNumber rt (property data ''employment_years''),
       gender = string_operand (property data ''gender''),
       contract_type = string_operand (property data ''contract_type''),
       education = string_operand (property data ''education'') \<rparr>"

text \<open>
  A request: its method, and what \<open>await req.json()\<close> yields, which is the parsed body or
  the rejection of the promise.
\<close>

record request =
  req_method :: string
  json :: "thrown + json_value"

definition corsHeaders :: "(string \<times> string) list" where
  "corsHeaders =
     [(''Access-Control-Allow-Origin'', ''*''),
      (''Access-Control-Allow-Headers'', ''authorization, x-client-info, apikey, content-type'')]"

text \<open>The statements of the \<open>try\<close> block: a prediction, or what was thrown.\<close>

definition try_block :: "runtime \<Rightarrow> cutoffs \<Rightarrow> real \<Rightarrow> thrown + json_value \<Rightarrow> thrown + prediction" where
  "try_block rt cs u parsed =
     (case parsed of
        Inl e \<Rightarrow> Inl e
      | Inr body \<Rightarrow>
          (case get_property rt body ''data'' of
             Inl e \<Rightarrow> Inl e
           | Inr None \<Rightarrow> Inl (Error ''Missing data field in request'')
           | Inr (Some data) \<Rightarrow>
               if \<not> ToBoolean data then Inl (Error ''Missing data field in request'')
               else (case check_fields rt requiredFields data of
                       Inl e \<Rightarrow> Inl e
                     | Inr ok \<Rightarrow> Inr (predictRisk cs u (as_applicant rt data)))))"

record response =
  status :: nat
  headers :: "(string \<times> string) list"
  body :: "json_value option"

text \<open>\<open>JSON.stringify\<close> writes a number that is not finite as \<open>null\<close>, and the negative
  zero as \<open>0\<close>.  A response body is modelled by the JSON value its text denotes.\<close>

fun stringify_number :: "jsnum \<Rightarrow> json_value" where
  "stringify_number (Fin r) = JNum (Fin r)"
| "stringify_number NegZero = JNum (Fin 0)"
| "stringify_number n = JNull"

definition stringify_result :: "prediction \<Rightarrow> json_value" where
  "stringify_result result =
     JObj [''probability'' \<mapsto> stringify_number (probability result),
           ''bucket'' \<mapsto> JStr (bucket result)]"

definition error_message :: "thrown \<Rightarrow> string" where
  "error_message error = (case error of Error message \<Rightarrow> message | NonError \<Rightarrow> ''Unknown error'')"

definition success_response :: "prediction \<Rightarrow> response" where
  "success_response result =
     \<lparr> status = 200,
       headers = corsHeaders @ [(''Content-Type'', ''application/json'')],
       body = Some (stringify_result result) \<rparr>"

definition error_response :: "thrown \<Rightarrow> response" where
  "error_response error =
     \<lparr> status = 500,
       headers = corsHeaders @ [(''Content-Type'', ''application/json'')],
       body = Some (JObj [''error'' \<mapsto> JStr (error_message error),
                          ''details'' \<mapsto> JStr ''Failed to process prediction request'']) \<rparr>"

definition serve_handler :: "runtime \<Rightarrow> cutoffs \<Rightarrow> real \<Rightarrow> request \<Rightarrow> response" where
  "serve_handler rt cs u req =
     (if req_method req = ''OPTIONS''
        then \<lparr> status = 200, headers = corsHeaders, body = None \<rparr>
      else (case try_block rt cs u (json req) of
              Inr result \<Rightarrow> success_response result
            | Inl error \<Rightarrow> error_response error))"

section \<open>The specification's rule table and risk order\<close>

text \<open>
  The derived quantities of the specification, taken from the applicant record:
  credit-to-income is credit / income, debt-to-income is (annuity * 12) / income, in the
  arithmetic of the program.
\<close>

definition credit_to_income :: "ApplicantData \<Rightarrow> jsnum" where
  "credit_to_income d = js_div (credit_amount d) (annual_income d)"

definition debt_to_income :: "ApplicantData \<Rightarrow> jsnum" where
  "debt_to_income d = js_div (js_mul (annuity d) (Fin 12)) (annual_income d)"

text \<open>
  The table of adjustments of the specification, row by row and in its words: the group
  of each rule, whether its condition holds, and its adjustment, a decimal number.
\<close>

datatype rule_group = CreditToIncome | DebtToIncome | Age | Employment | ContractType | Education

record rule =
  rule_group :: rule_group
  applies :: bool
  adjustment :: real

definition rule :: "rule_group \<Rightarrow> bool \<Rightarrow> real \<Rightarrow> rule" where
  "rule g c a = \<lparr> rule_group = g, applies = c, adjustment = a \<rparr>"

definition adjustment_table :: "ApplicantData \<Rightarrow> rule list" where
  "adjustment_table d =
     [ rule CreditToIncome (js_gt (credit_to_income d) (Fin 3)) 0.08,
       rule CreditToIncome
         (js_gt (credit_to_income d) (Fin 2) \<and> js_le (credit_to_income d) (Fin 3)) 0.05,
       rule CreditToIncome
         (js_gt (credit_to_income d) (Fin 1) \<and> js_le (credit_to_income d) (Fin 2)) 0.03,
       rule DebtToIncome (js_gt (debt_to_income d) (Fin 0.5)) 0.06,
       rule DebtToIncome
         (js_gt (debt_to_income d) (lit 0.3) \<and> js_le (debt_to_income d) (Fin 0.5)) 0.03,
       rule Age (js_lt (age d) (Fin 25)) 0.04,
       rule Age (js_gt (age d) (Fin 60)) 0.02,
       rule Employment (js_lt (employment_years d) (Fin 1)) 0.05,
       rule Employment
         (js_lt (employment_years d) (Fin 3) \<and> js_le (Fin 1) (employment_years d)) 0.03,
       rule Employment (js_gt (employment_years d) (Fin 10)) (- 0.02),
       rule ContractType (contract_type d = ''Revolving loans'') 0.02,
       rule Education (education d \<in> {''Academic degree'', ''Higher education''}) (- 0.02),
       rule Education (education d = ''Lower secondary'') 0.02 ]"

definition applicable :: "ApplicantData \<Rightarrow> rule list" where
  "applicable d = filter applies (adjustment_table d)"

definition applicable_in :: "rule_group \<Rightarrow> ApplicantData \<Rightarrow> rule list" where
  "applicable_in g d = filter (\<lambda>r. rule_group r = g) (applicable d)"

text \<open>The sum of the applicable adjustments as a sum of decimal numbers, which does not
  depend on their order.\<close>

definition table_score :: "ApplicantData \<Rightarrow> real" where
  "table_score d = sum_list (map adjustment (applicable d))"

text \<open>The sum in the arithmetic of the program: the adjustments, each a binary64 literal,
  are added to the score one after the other, in the order of the table.\<close>

definition accumulate :: "jsnum \<Rightarrow> real list \<Rightarrow> jsnum" where
  "accumulate s as = foldl (\<lambda>s a. js_add s (lit a)) s as"

definition table_score64 :: "ApplicantData \<Rightarrow> jsnum" where
  "table_score64 d = accumulate (Fin 0) (map adjustment (applicable d))"

text \<open>The risk order of the buckets: A is the safest, D the riskiest.\<close>

definition bucket_rank :: "string \<Rightarrow> nat" where
  "bucket_rank b = (if b = ''A'' then 0 else if b = ''B'' then 1 else if b = ''C'' then 2 else 3)"

section \<open>Inputs of the scenarios\<close>

text \<open>The applicant of the specification's first scenario.\<close>

definition scenario :: ApplicantData where
  "scenario =
     \<lparr> annual_income = Fin 147150, credit_amount = Fin 599025, annuity = Fin 27108,
       age = Fin 35, employment_years = Fin 5, gender = ''F'',
       contract_type = ''Cash loans'', education = ''Higher education'' \<rparr>"


text \<open>An applicant whose credit is exactly three times the income.\<close>

definition threefold :: ApplicantData where
  "threefold = scenario \<lparr> annual_income := Fin 100000, credit_amount := Fin 300000 \<rparr>"

text \<open>An applicant whose credit is more than three times the income, by so little that
  the quotient rounds to 3.  Both amounts are binary64 numbers.\<close>

definition near_threefold :: ApplicantData where
  "near_threefold =
     scenario \<lparr> annual_income := Fin (2 ^ 52 + 1), credit_amount := Fin (3 * 2 ^ 52 + 4) \<rparr>"

text \<open>An applicant whose rules add up to a negative score.\<close>

definition low_risk :: ApplicantData where
  "low_risk =
     scenario \<lparr> annual_income := Fin 100000, credit_amount := Fin 50000, annuity := Fin 2000 \<rparr>"

text \<open>Sample cutoffs; a sample engine: its message for a read on \<open>null\<close> is the one of
  V8, its conversions and its message for \<open>in\<close> are placeholders.\<close>

definition ordered_cutoffs :: cutoffs where
  "ordered_cutoffs = \<lparr> A = 0.05, B = 0.1, C = 0.2 \<rparr>"

definition sample_runtime :: runtime where
  "sample_runtime =
     \<lparr> StringToNumber = (\<lambda>s. NaN),
       ObjectToNumber = (\<lambda>v. NaN),
       null_read_message =
         (\<lambda>k. ''Cannot read properties of null (reading '' @ [CHR 0x27] @ k @ [CHR 0x27] @ '')''),
       in_operator_message = (\<lambda>k v. ''Cannot use in operator to search for '' @ k) \<rparr>"

text \<open>The JSON object of the first scenario, and requests that carry it.\<close>

definition scenario_data :: "string \<Rightarrow> json_value option" where
  "scenario_data =
     [''annual_income'' \<mapsto> JNum (Fin 147150), ''credit_amount'' \<mapsto> JNum (Fin 599025),
      ''annuity'' \<mapsto> JNum (Fin 27108), ''age'' \<mapsto> JNum (Fin 35),
      ''employment_years'' \<mapsto> JNum (Fin 5), ''gender'' \<mapsto> JStr ''F'',
      ''contract_type'' \<mapsto> JStr ''Cash loans'', ''education'' \<mapsto> JStr ''Higher education'']"


definition post :: "json_value \<Rightarrow> request" where
  "post v = \<lparr> req_method = ''POST'', json = Inr v \<rparr>"


section \<open>Properties of the rounding\<close>

lemma binade_bounds:
  assumes "x \<noteq> 0"
  shows "2 powi binade x \<le> \<bar>x\<bar>" and "\<bar>x\<bar> < 2 powi (binade x + 1)"
proof -
  have "2 powi binade x \<le> \<bar>x\<bar> \<and> \<bar>x\<bar> < 2 powi (binade x + 1)"
  proof (cases "1 \<le> \<bar>x\<bar>")
    case True
    define n where "n = \<lfloor>\<bar>x\<bar>\<rfloor>"
    have n: "0 < n" "of_int n \<le> \<bar>x\<bar>" "\<bar>x\<bar> < of_int n + 1"
      using True unfolding n_def by linarith+
    from bitlen_bounds [OF n(1)] have b: "2 ^ nat (bitlen n - 1) \<le> n" "n < 2 ^ nat (bitlen n)"
      by auto
    have pos: "1 \<le> bitlen n" using n(1) by (simp add: bitlen_alt_def)
    have k: "binade x = bitlen n - 1" using True by (simp add: binade_def n_def)
    have "(2::real) powi (bitlen n - 1) = 2 ^ nat (bitlen n - 1)"
      using pos by (simp add: power_int_def)
    also have "\<dots> \<le> of_int n" using b(1) by (metis of_int_le_iff of_int_numeral of_int_power)
    finally have lo: "2 powi (bitlen n - 1) \<le> \<bar>x\<bar>" using n(2) by linarith
    have "n + 1 \<le> 2 ^ nat (bitlen n)" using b(2) by simp
    then have "of_int (n + 1) \<le> (2::real) ^ nat (bitlen n)"
      by (metis of_int_le_iff of_int_numeral of_int_power)
    also have "\<dots> = 2 powi (bitlen n)" using pos by (simp add: power_int_def)
    finally have hi: "\<bar>x\<bar> < 2 powi (bitlen n - 1 + 1)" using n(3) by simp
    from lo hi k show ?thesis by simp
  next
    case False
    define y where "y = 1 / \<bar>x\<bar>"
    have x: "0 < \<bar>x\<bar>" "\<bar>x\<bar> < 1" using assms False by auto
    then have y: "1 < y" by (simp add: y_def)
    define n where "n = \<lceil>y\<rceil> - 1"
    have n: "0 < n" "of_int n < y" "y \<le> of_int n + 1"
      using y unfolding n_def by linarith+
    from bitlen_bounds [OF n(1)] have b: "2 ^ nat (bitlen n - 1) \<le> n" "n < 2 ^ nat (bitlen n)"
      by auto
    have pos: "1 \<le> bitlen n" using n(1) by (simp add: bitlen_alt_def)
    have k: "binade x = - bitlen n" using False by (simp add: binade_def n_def y_def)
    have "n + 1 \<le> 2 ^ nat (bitlen n)" using b(2) by simp
    then have "of_int (n + 1) \<le> (2::real) ^ nat (bitlen n)"
      by (metis of_int_le_iff of_int_numeral of_int_power)
    also have "\<dots> = 2 powi (bitlen n)" using pos by (simp add: power_int_def)
    finally have "y \<le> 2 powi (bitlen n)" using n(3) by simp
    then have "1 / 2 powi (bitlen n) \<le> 1 / y"
      using y by (intro divide_left_mono) auto
    then have lo: "2 powi (- bitlen n) \<le> \<bar>x\<bar>"
      using x by (simp add: y_def power_int_minus_divide)
    have "(2::real) powi (bitlen n - 1) = 2 ^ nat (bitlen n - 1)"
      using pos by (simp add: power_int_def)
    also have "\<dots> \<le> of_int n" using b(1) by (metis of_int_le_iff of_int_numeral of_int_power)
    finally have "2 powi (bitlen n - 1) < y" using n(2) by linarith
    then have "1 / y < 1 / 2 powi (bitlen n - 1)"
      using y by (intro divide_strict_left_mono) auto
    moreover have "1 / 2 powi (bitlen n - 1) = (2::real) powi (- bitlen n + 1)"
      using power_int_minus_divide [of "2::real" "bitlen n - 1"] by simp
    ultimately have hi: "\<bar>x\<bar> < 2 powi (- bitlen n + 1)"
      using x by (simp add: y_def)
    from lo hi k show ?thesis by simp
  qed
  then show "2 powi binade x \<le> \<bar>x\<bar>" and "\<bar>x\<bar> < 2 powi (binade x + 1)" by auto
qed

lemma two_powi_less_iff: "(2::real) powi a < 2 powi b \<longleftrightarrow> a < b"
proof
  assume "(2::real) powi a < 2 powi b"
  then show "a < b"
    using power_int_increasing [of b a "2::real"] by (cases "a < b") auto
next
  assume "a < b"
  then show "(2::real) powi a < 2 powi b"
    by (intro power_int_strict_increasing) auto
qed

lemma two_powi_le_iff: "(2::real) powi a \<le> 2 powi b \<longleftrightarrow> a \<le> b"
  using two_powi_less_iff [of b a] by (simp add: not_less [symmetric])

lemma binade_eq:
  assumes "2 powi k \<le> \<bar>x\<bar>" and "\<bar>x\<bar> < 2 powi (k + 1)"
  shows "binade x = k"
proof -
  have "0 < \<bar>x\<bar>"
    using assms(1) zero_less_power_int [of "2::real" k] by linarith
  then have nz: "x \<noteq> 0" by auto
  note b = binade_bounds [OF nz]
  have "(2::real) powi k < 2 powi (binade x + 1)" using assms(1) b(2) by linarith
  then have 1: "k < binade x + 1" by (simp add: two_powi_less_iff)
  have "(2::real) powi binade x < 2 powi (k + 1)" using assms(2) b(1) by linarith
  then have 2: "binade x < k + 1" by (simp add: two_powi_less_iff)
  from 1 2 show ?thesis by simp
qed


lemma binade_mono:
  assumes "x \<noteq> 0" and "\<bar>x\<bar> \<le> \<bar>b\<bar>"
  shows "binade x \<le> binade b"
proof -
  have b: "b \<noteq> 0" using assms by auto
  have "2 powi binade x \<le> \<bar>x\<bar>" by (rule binade_bounds [OF assms(1)])
  also have "\<dots> \<le> \<bar>b\<bar>" by (rule assms(2))
  also have "\<dots> < 2 powi (binade b + 1)" by (rule binade_bounds [OF b])
  finally show ?thesis by (simp add: two_powi_less_iff)
qed

lemma binade_minus: "binade (- x) = binade x"
  by (simp add: binade_def)

lemma quantum_minus: "quantum (- x) = quantum x"
  by (simp add: quantum_def binade_minus)

lemma quantum_mono: "x \<noteq> 0 \<Longrightarrow> \<bar>x\<bar> \<le> \<bar>b\<bar> \<Longrightarrow> quantum x \<le> quantum b"
  using binade_mono [of x b] by (simp add: quantum_def)

lemma round_half_even_bounds: "\<lfloor>t\<rfloor> \<le> round_half_even t" "round_half_even t \<le> \<lceil>t\<rceil>"
  by (auto simp: round_half_even_def Let_def ceiling_altdef)

lemma round_half_even_of_int: "round_half_even (of_int n) = n"
  by (simp add: round_half_even_def)

lemma round_half_even_minus: "round_half_even (- t) = - round_half_even t"
proof (cases "t = of_int \<lfloor>t\<rfloor>")
  case True
  then obtain n where "t = of_int n" ..
  then show ?thesis
    using round_half_even_of_int [of n] round_half_even_of_int [of "- n"] by simp
next
  case False
  then have "\<lceil>t\<rceil> = \<lfloor>t\<rfloor> + 1"
    by (simp add: ceiling_altdef)
  then have f: "\<lfloor>- t\<rfloor> = - \<lfloor>t\<rfloor> - 1"
    by (simp add: ceiling_def)
  have r: "t - of_int \<lfloor>t\<rfloor> < 1" "0 \<le> t - of_int \<lfloor>t\<rfloor>" by linarith+
  show ?thesis
    unfolding round_half_even_def Let_def f using r by (auto simp: algebra_simps)
qed


lemma quantum_ge: "- 1074 \<le> quantum x" "binade x - 52 \<le> quantum x"
  by (simp_all add: quantum_def)

lemma scaled_bound:
  assumes "x \<noteq> 0"
  shows "\<bar>x / 2 powi quantum x\<bar> < 2 ^ 53"
proof -
  have "\<bar>x\<bar> < 2 powi (binade x + 1)" by (rule binade_bounds [OF assms])
  also have "\<dots> \<le> 2 powi (quantum x + 53)"
    using quantum_ge(2) [of x] by (simp add: two_powi_le_iff)
  also have "\<dots> = 2 powi quantum x * 2 ^ 53"
    by (simp add: power_int_add)
  finally have "\<bar>x\<bar> / 2 powi quantum x < 2 ^ 53"
    by (simp add: divide_simps)
  then show ?thesis by simp
qed

lemma mantissa_bound:
  assumes "x \<noteq> 0"
  shows "\<bar>round_half_even (x / 2 powi quantum x)\<bar> \<le> 2 ^ 53"
proof -
  let ?t = "x / 2 powi quantum x"
  from scaled_bound [OF assms] have t: "?t < 2 ^ 53" "- (2 ^ 53) < ?t" by linarith+
  have "\<lceil>?t\<rceil> \<le> 2 ^ 53"
    using t(1) by (simp add: ceiling_le_iff)
  moreover have "- (2 ^ 53) \<le> \<lfloor>?t\<rfloor>"
    using t(2) by (simp add: le_floor_iff)
  ultimately show ?thesis
    using round_half_even_bounds [of ?t] by linarith
qed

lemma round64_minus: "x \<noteq> 0 \<Longrightarrow> round64 (- x) = js_neg (round64 x)"
  by (simp add: round64_def Let_def quantum_minus round_half_even_minus)

lemma is_double_0: "is_double 0"
  by (simp add: is_double_def round64_def)

lemma is_doubleD:
  assumes "is_double b" and "b \<noteq> 0"
  shows "b = of_int (round_half_even (b / 2 powi quantum b)) * 2 powi quantum b"
    and "\<bar>b\<bar> < 2 ^ 1024"
  using assms by (auto simp: is_double_def round64_def Let_def split: if_splits)

lemma is_doubleI:
  assumes "b = of_int n * 2 powi quantum b" and "\<bar>b\<bar> < 2 ^ 1024"
  shows "is_double b"
proof (cases "b = 0")
  case True
  then show ?thesis by (simp add: is_double_0)
next
  case False
  have "b / 2 powi quantum b = of_int n"
    using assms(1) by (metis nonzero_mult_div_cancel_right power_int_eq_0_iff zero_neq_numeral)
  then have m: "round_half_even (b / 2 powi quantum b) = n"
    by (simp add: round_half_even_of_int)
  have "n \<noteq> 0" using False assms(1) by auto
  then show ?thesis
    using False assms m by (simp add: is_double_def round64_def Let_def)
qed

lemma is_double_minus: "is_double b \<Longrightarrow> is_double (- b)"
  by (cases "b = 0") (auto simp: is_double_def round64_minus)


lemma coarser_grid:
  assumes "p \<le> q"
  shows "\<exists>n. of_int m * (2::real) powi q = of_int n * 2 powi p"
proof -
  have "(2::real) powi q = 2 powi p * 2 powi (q - p)"
    by (simp flip: power_int_add)
  also have "(2::real) powi (q - p) = 2 ^ nat (q - p)"
    using assms by (simp add: power_int_def)
  finally have "of_int m * (2::real) powi q = of_int (m * 2 ^ nat (q - p)) * 2 powi p"
    by simp
  then show ?thesis ..
qed

lemma on_own_grid:
  assumes "m \<noteq> 0" and "\<bar>m\<bar> \<le> 2 ^ 53" and "- 1074 \<le> q"
  shows "\<exists>n. of_int m * (2::real) powi q = of_int n * 2 powi quantum (of_int m * 2 powi q)"
proof -
  let ?r = "of_int m * (2::real) powi q"
  have abs_r: "\<bar>?r\<bar> = of_int \<bar>m\<bar> * 2 powi q"
    by (simp add: abs_mult)
  show ?thesis
  proof (cases "\<bar>m\<bar> = 2 ^ 53")
    case True
    then have "\<bar>?r\<bar> = 2 powi (q + 53)"
      by (simp add: abs_r power_int_add)
    then have "binade ?r = q + 53"
      by (intro binade_eq) (simp_all add: two_powi_less_iff)
    then have "quantum ?r = q + 1"
      using assms(3) by (simp add: quantum_def)
    moreover have "\<bar>m\<bar> = 9007199254740992"
      using True by simp
    then have "m = 2 * (m div 2)"
      by presburger
    then have "?r = of_int (m div 2) * 2 powi (q + 1)"
      by (simp add: power_int_add)
    ultimately show ?thesis by metis
  next
    case False
    then have "\<bar>m\<bar> < 2 ^ 53" using assms(2) by simp
    then have "of_int \<bar>m\<bar> < (2::real) ^ 53"
      by (metis of_int_less_iff of_int_numeral of_int_power)
    then have "\<bar>?r\<bar> < 2 powi (q + 53)"
      by (simp add: abs_r power_int_add mult.commute)
    moreover have "?r \<noteq> 0" using assms(1) by simp
    then have "2 powi binade ?r \<le> \<bar>?r\<bar>" by (rule binade_bounds)
    ultimately have "(2::real) powi binade ?r < 2 powi (q + 53)" by linarith
    then have "binade ?r < q + 53" by (simp add: two_powi_less_iff)
    then have "quantum ?r \<le> q"
      using assms(3) by (simp add: quantum_def)
    then show ?thesis by (rule coarser_grid)
  qed
qed

lemma round64_is_double:
  assumes "round64 x = Fin y"
  shows "is_double y"
proof (cases "y = 0")
  case True
  then show ?thesis by (simp add: is_double_0)
next
  case False
  then have x: "x \<noteq> 0" using assms by (auto simp: round64_def)
  let ?m = "round_half_even (x / 2 powi quantum x)"
  from assms False x have y: "y = of_int ?m * 2 powi quantum x" "\<bar>y\<bar> < 2 ^ 1024" "?m \<noteq> 0"
    by (auto simp: round64_def Let_def split: if_splits)
  obtain n where "y = of_int n * 2 powi quantum y"
    using on_own_grid [OF y(3) mantissa_bound [OF x] quantum_ge(1) [of x]]
    unfolding y(1) by blast
  then show ?thesis using y(2) by (rule is_doubleI)
qed

lemma round64_sign:
  "0 < x \<Longrightarrow> round64 x = Infinity \<or> (\<exists>y. round64 x = Fin y \<and> 0 \<le> y)"
  "x < 0 \<Longrightarrow> round64 x = NegInfinity \<or> round64 x = NegZero \<or> (\<exists>y. round64 x = Fin y \<and> y < 0)"
proof -
  have pos: "0 \<le> round_half_even (x / 2 powi quantum x)" if "0 < x"
  proof -
    have "0 \<le> x / 2 powi quantum x" using that by simp
    then have "0 \<le> \<lfloor>x / 2 powi quantum x\<rfloor>" by simp
    then show ?thesis using round_half_even_bounds(1) [of "x / 2 powi quantum x"] by linarith
  qed
  have neg: "round_half_even (x / 2 powi quantum x) \<le> 0" if "x < 0"
  proof -
    have "x / 2 powi quantum x \<le> 0" using that by (simp add: divide_le_0_iff)
    then have "\<lceil>x / 2 powi quantum x\<rceil> \<le> 0" by (simp add: ceiling_le_iff)
    then show ?thesis using round_half_even_bounds(2) [of "x / 2 powi quantum x"] by linarith
  qed
  show "0 < x \<Longrightarrow> round64 x = Infinity \<or> (\<exists>y. round64 x = Fin y \<and> 0 \<le> y)"
    using pos by (auto simp: round64_def Let_def)
  show "x < 0 \<Longrightarrow> round64 x = NegInfinity \<or> round64 x = NegZero \<or> (\<exists>y. round64 x = Fin y \<and> y < 0)"
    using neg by (auto simp: round64_def Let_def mult_less_0_iff)
qed


lemma round64_le:
  assumes "is_double b" and "0 \<le> b" and "x \<le> b"
  shows "js_le (round64 x) (Fin b)"
proof -
  consider "x = 0" | "x < 0" | "0 < x" by linarith
  then show ?thesis
  proof cases
    case 1
    then show ?thesis using assms(2) by (simp add: round64_def js_le_def)
  next
    case 2
    from round64_sign(2) [OF this] show ?thesis
      using assms(2) by (auto simp: js_le_def)
  next
    case 3
    let ?q = "quantum x"
    let ?t = "x / 2 powi ?q"
    let ?m = "round_half_even ?t"
    have b: "b \<noteq> 0" using 3 assms(3) by auto
    have "?q \<le> quantum b"
      using 3 assms(3) by (intro quantum_mono) auto
    from coarser_grid [OF this] is_doubleD(1) [OF assms(1) b]
    obtain n where n: "b = of_int n * 2 powi ?q" by metis
    have "?t \<le> b / 2 powi ?q"
      using assms(3) by (simp add: divide_right_mono)
    also have "\<dots> = of_int n" by (simp add: n)
    finally have "\<lceil>?t\<rceil> \<le> n" by (simp add: ceiling_le_iff)
    then have mn: "?m \<le> n" using round_half_even_bounds(2) [of ?t] by linarith
    have "0 \<le> ?t" using 3 by simp
    then have "0 \<le> \<lfloor>?t\<rfloor>" by simp
    then have m0: "0 \<le> ?m" using round_half_even_bounds(1) [of ?t] by linarith
    have "of_int ?m * 2 powi ?q \<le> of_int n * (2::real) powi ?q"
      using mn by (intro mult_right_mono) auto
    then have y: "of_int ?m * 2 powi ?q \<le> b" by (simp add: n)
    have y0: "0 \<le> of_int ?m * (2::real) powi ?q" using m0 by simp
    have "\<bar>of_int ?m * (2::real) powi ?q\<bar> < 2 ^ 1024"
      using y y0 is_doubleD(2) [OF assms(1) b] by linarith
    then show ?thesis
      using 3 y assms(2) by (simp add: round64_def Let_def js_le_def)
  qed
qed

lemma js_neg_le: "js_le (js_neg v) (Fin (- b)) \<Longrightarrow> js_le (Fin b) v"
  by (cases v) (auto simp: js_le_def split: if_splits)

lemma round64_ge:
  assumes "is_double b" and "b \<le> 0" and "b \<le> x"
  shows "js_le (Fin b) (round64 x)"
proof (cases "x = 0")
  case True
  then show ?thesis using assms(2) by (simp add: round64_def js_le_def)
next
  case False
  have "js_le (round64 (- x)) (Fin (- b))"
    using assms by (intro round64_le is_double_minus) auto
  then show ?thesis
    by (simp add: round64_minus [OF False] js_neg_le)
qed

lemma double_on_least_grid:
  assumes "is_double b"
  shows "\<exists>n. b = of_int n * 2 powi (- 1074)"
proof (cases "b = 0")
  case True
  then have "b = of_int 0 * 2 powi (- 1074)" by simp
  then show ?thesis ..
next
  case False
  from coarser_grid [OF quantum_ge(1) [of b]] is_doubleD(1) [OF assms False]
  show ?thesis by metis
qed

lemma sum_of_doubles:
  assumes "is_double a" and "is_double c" and "a + c \<noteq> 0"
  shows "2 powi (- 1074) \<le> \<bar>a + c\<bar>"
proof -
  from double_on_least_grid [OF assms(1)] obtain n1 where a: "a = of_int n1 * 2 powi (- 1074)" ..
  from double_on_least_grid [OF assms(2)] obtain n2 where c: "c = of_int n2 * 2 powi (- 1074)" ..
  have s: "a + c = of_int (n1 + n2) * 2 powi (- 1074)"
    by (simp add: a c algebra_simps)
  then have "n1 + n2 \<noteq> 0" using assms(3) by auto
  then have "1 \<le> \<bar>n1 + n2\<bar>" by simp
  then have "(1::real) \<le> of_int \<bar>n1 + n2\<bar>" by (metis of_int_1_le_iff)
  then have "1 * 2 powi (- 1074) \<le> of_int \<bar>n1 + n2\<bar> * (2::real) powi (- 1074)"
    by (intro mult_right_mono) auto
  then show ?thesis unfolding s by (simp add: abs_mult)
qed

lemma round64_not_zero:
  assumes "2 powi (- 1074) \<le> \<bar>x\<bar>"
  shows "round64 x \<noteq> Fin 0" and "round64 x \<noteq> NegZero"
proof -
  let ?q = "quantum x"
  let ?t = "x / 2 powi ?q"
  have x: "x \<noteq> 0"
    using assms zero_less_power_int [of "2::real" "- 1074"] by auto
  have "2 powi ?q \<le> \<bar>x\<bar>"
  proof (cases "binade x - 52 \<le> - 1074")
    case True
    then show ?thesis using assms by (simp add: quantum_def max_def)
  next
    case False
    then have "?q = binade x - 52" by (simp add: quantum_def)
    then have "(2::real) powi ?q \<le> 2 powi binade x" by (simp add: two_powi_le_iff)
    then show ?thesis using binade_bounds(1) [OF x] by linarith
  qed
  then have "1 \<le> \<bar>x\<bar> / 2 powi ?q" by (simp add: divide_simps)
  then have "1 \<le> \<bar>?t\<bar>" by simp
  then consider "1 \<le> ?t" | "?t \<le> - 1" by linarith
  then have m: "round_half_even ?t \<noteq> 0"
  proof cases
    case 1
    then have "1 \<le> \<lfloor>?t\<rfloor>" by (simp add: le_floor_iff)
    then show ?thesis using round_half_even_bounds(1) [of ?t] by linarith
  next
    case 2
    then have "\<lceil>?t\<rceil> \<le> - 1" by (simp add: ceiling_le_iff)
    then show ?thesis using round_half_even_bounds(2) [of ?t] by linarith
  qed
  show "round64 x \<noteq> Fin 0" and "round64 x \<noteq> NegZero"
    using x m by (auto simp: round64_def Let_def)
qed

lemma js_add_doubles:
  assumes "is_double a" and "is_double c" and "is_double lo" and "is_double hi"
    and "lo \<le> 0" and "0 \<le> hi" and "lo \<le> a + c" and "a + c \<le> hi"
  shows "\<exists>t. js_add (Fin a) (Fin c) = Fin t \<and> is_double t \<and> lo \<le> t \<and> t \<le> hi"
proof (cases "a + c = 0")
  case True
  then show ?thesis
    using assms(5,6) by (simp add: round64_def is_double_0)
next
  case False
  note nz = round64_not_zero [OF sum_of_doubles [OF assms(1,2) False]]
  have u: "js_le (round64 (a + c)) (Fin hi)"
    using assms(4,6,8) by (rule round64_le)
  have l: "js_le (Fin lo) (round64 (a + c))"
    using assms(3,5,7) by (rule round64_ge)
  show ?thesis
  proof (cases "round64 (a + c)")
    case (Fin t)
    then show ?thesis
      using u l round64_is_double [OF Fin] by (simp add: js_le_def)
  qed (use u l nz in \<open>simp_all add: js_le_def\<close>)
qed

lemma round64_normal:
  assumes "2 powi k \<le> \<bar>x\<bar>" and "\<bar>x\<bar> < 2 powi (k + 1)" and "- 1022 \<le> k" and "k \<le> 1022"
  shows "round64 x = Fin (of_int (round_half_even (x / 2 powi (k - 52))) * 2 powi (k - 52))"
proof -
  have k: "binade x = k" using assms(1,2) by (rule binade_eq)
  then have q: "quantum x = k - 52" using assms(3) by (simp add: quantum_def)
  have "0 < \<bar>x\<bar>"
    using assms(1) zero_less_power_int [of "2::real" k] by linarith
  then have x: "x \<noteq> 0" by auto
  have "(2::real) powi (- 1074) \<le> 2 powi k" using assms(3) by (subst two_powi_le_iff) simp
  then have "2 powi (- 1074) \<le> \<bar>x\<bar>" using assms(1) by linarith
  from round64_not_zero [OF this] have nz: "round_half_even (x / 2 powi (k - 52)) \<noteq> 0"
    using x by (auto simp: round64_def Let_def q split: if_splits)
  let ?m = "round_half_even (x / 2 powi (k - 52))"
  have "\<bar>?m\<bar> \<le> 2 ^ 53" using mantissa_bound [OF x] by (simp add: q)
  then have "of_int \<bar>?m\<bar> \<le> (2::real) ^ 53"
    by (metis of_int_le_iff of_int_numeral of_int_power)
  then have "of_int \<bar>?m\<bar> * 2 powi (k - 52) \<le> 2 ^ 53 * (2::real) powi (k - 52)"
    by (intro mult_right_mono) auto
  also have "\<dots> = 2 powi (k + 1)"
    using power_int_add [of "2::real" 53 "k - 52"] by (simp add: add.commute)
  also have "\<dots> \<le> 2 powi 1023" using assms(4) by (subst two_powi_le_iff) simp
  also have "\<dots> < 2 ^ 1024" by simp
  finally have "\<bar>of_int ?m * (2::real) powi (k - 52)\<bar> < 2 ^ 1024"
    by (simp add: abs_mult)
  then show ?thesis
    using x nz by (simp add: round64_def Let_def q)
qed

subsection \<open>The literals of the scorer\<close>

lemma lit_008: "lit 0.08 = Fin (5764607523034235 / 2 ^ 56)"
  unfolding lit_def using round64_normal [of "- 4" "0.08"]
  by (simp add: round_half_even_def)

lemma lit_005: "lit 0.05 = Fin (7205759403792794 / 2 ^ 57)"
  unfolding lit_def using round64_normal [of "- 5" "0.05"]
  by (simp add: round_half_even_def)

lemma lit_003: "lit 0.03 = Fin (8646911284551352 / 2 ^ 58)"
  unfolding lit_def using round64_normal [of "- 6" "0.03"]
  by (simp add: round_half_even_def)

lemma lit_006: "lit 0.06 = Fin (8646911284551352 / 2 ^ 57)"
  unfolding lit_def using round64_normal [of "- 5" "0.06"]
  by (simp add: round_half_even_def)

lemma lit_004: "lit 0.04 = Fin (5764607523034235 / 2 ^ 57)"
  unfolding lit_def using round64_normal [of "- 5" "0.04"]
  by (simp add: round_half_even_def)

lemma lit_002: "lit 0.02 = Fin (5764607523034235 / 2 ^ 58)"
  unfolding lit_def using round64_normal [of "- 6" "0.02"]
  by (simp add: round_half_even_def)

lemma lit_001: "lit 0.01 = Fin (5764607523034235 / 2 ^ 59)"
  unfolding lit_def using round64_normal [of "- 7" "0.01"]
  by (simp add: round_half_even_def)

lemma lit_03: "lit 0.3 = Fin (5404319552844595 / 2 ^ 54)"
  unfolding lit_def using round64_normal [of "- 2" "0.3"]
  by (simp add: round_half_even_def)

lemma lit_04: "lit 0.4 = Fin (7205759403792794 / 2 ^ 54)"
  unfolding lit_def using round64_normal [of "- 2" "0.4"]
  by (simp add: round_half_even_def)

lemma lit_012: "lit 0.12 = Fin (8646911284551352 / 2 ^ 56)"
  unfolding lit_def using round64_normal [of "- 4" "0.12"]
  by (simp add: round_half_even_def)

lemma lit_014: "lit 0.14 = Fin (5044031582654956 / 2 ^ 55)"
  unfolding lit_def using round64_normal [of "- 3" "0.14"]
  by (simp add: round_half_even_def)

lemmas literals = lit_008 lit_005 lit_003 lit_006 lit_004 lit_002 lit_001 lit_03 lit_04 lit_012 lit_014


subsection \<open>Rounding is monotone across a binary64 number\<close>

lemma round64_above:
  assumes "is_double b" and "0 < b" and "b \<le> x"
  shows "js_le (Fin b) (round64 x)"
proof -
  let ?q = "quantum x"
  let ?t = "x / 2 powi ?q"
  let ?m = "round_half_even ?t"
  have x: "0 < x" "x \<noteq> 0" "\<bar>x\<bar> = x" using assms(2,3) by auto
  have b: "b \<noteq> 0" "\<bar>b\<bar> = b" using assms(2) by auto
  have key: "b \<le> of_int ?m * 2 powi ?q"
  proof (cases "quantum b = ?q")
    case True
    from is_doubleD(1) [OF assms(1) b(1)]
    obtain n where n: "b = of_int n * 2 powi ?q" unfolding True by blast
    have "of_int n = b / 2 powi ?q" by (simp add: n)
    also have "\<dots> \<le> ?t" using assms(3) by (simp add: divide_right_mono)
    finally have "n \<le> \<lfloor>?t\<rfloor>" by (simp add: le_floor_iff)
    then have "n \<le> ?m" using round_half_even_bounds(1) [of ?t] by linarith
    then have "of_int n * 2 powi ?q \<le> of_int ?m * (2::real) powi ?q"
      by (intro mult_right_mono) auto
    then show ?thesis by (simp add: n)
  next
    case False
    have "quantum b \<le> ?q"
      using b x assms(3) by (intro quantum_mono) auto
    then have lt: "quantum b < ?q" using False by simp
    have q: "?q = binade x - 52"
      using lt unfolding quantum_def by linarith
    have "binade b - 52 < ?q" using lt quantum_ge(2) [of b] by simp
    then have bb: "binade b + 1 \<le> binade x" using q by simp
    have "b < 2 powi (binade b + 1)"
      using binade_bounds(2) [OF b(1)] b(2) by simp
    also have "\<dots> \<le> 2 powi binade x"
      using bb by (simp add: two_powi_le_iff)
    finally have b_lt: "b < 2 powi binade x" .
    have split: "(2::real) powi binade x = 2 ^ 52 * 2 powi ?q"
      using power_int_add [of "2::real" 52 "binade x - 52"] by (simp add: q)
    have "2 powi binade x \<le> x"
      using binade_bounds(1) [OF x(2)] x(3) by simp
    then have "2 ^ 52 * 2 powi ?q / 2 powi ?q \<le> ?t"
      unfolding split by (intro divide_right_mono) auto
    then have "of_int (2 ^ 52) \<le> ?t" by simp
    then have "2 ^ 52 \<le> \<lfloor>?t\<rfloor>" by (simp only: le_floor_iff)
    then have "2 ^ 52 \<le> ?m" using round_half_even_bounds(1) [of ?t] by linarith
    then have "of_int (2 ^ 52) * 2 powi ?q \<le> of_int ?m * (2::real) powi ?q"
      by (intro mult_right_mono) (simp_all only: of_int_le_iff zero_le_power_int zero_le_numeral)
    then have "(2::real) powi binade x \<le> of_int ?m * 2 powi ?q"
      unfolding split by simp
    then show ?thesis using b_lt by linarith
  qed
  then have "0 < of_int ?m * (2::real) powi ?q" using assms(2) by linarith
  then have "?m \<noteq> 0" by auto
  then show ?thesis
    using x key by (auto simp: round64_def Let_def js_le_def)
qed

lemma round64_below:
  assumes "is_double b" and "b < 0" and "x \<le> b"
  shows "js_le (round64 x) (Fin b)"
proof -
  have x: "x \<noteq> 0" using assms(2,3) by auto
  have "js_le (Fin (- b)) (round64 (- x))"
    using assms by (intro round64_above is_double_minus) auto
  then show ?thesis
    unfolding round64_minus [OF x]
    by (cases "round64 x") (auto simp: js_le_def split: if_splits)
qed

lemma lit_041: "lit 0.41 = Fin (7385903388887613 / 2 ^ 54)"
  unfolding lit_def using round64_normal [of "- 2" "0.41"]
  by (simp add: round_half_even_def)

lemma lit_minus: "x \<noteq> 0 \<Longrightarrow> lit (- x) = js_neg (lit x)"
  by (simp add: lit_def round64_minus)

lemma lit_m001: "lit (- 0.01) = Fin (- (5764607523034235 / 2 ^ 59))"
  using lit_minus [of "0.01"] unfolding lit_001 by simp

lemma lit_m002: "lit (- 0.02) = Fin (- (5764607523034235 / 2 ^ 58))"
  using lit_minus [of "0.02"] unfolding lit_002 by simp

lemma lit_is_double: "lit x = Fin y \<Longrightarrow> is_double y"
  unfolding lit_def by (rule round64_is_double)

lemma dyadic_doubles:
  "is_double (1 / 8)" "is_double (3 / 16)" "is_double (1 / 4)" "is_double (5 / 16)"
  "is_double (11 / 32)" "is_double (3 / 8)" "is_double (25 / 64)"
  "is_double (- (1 / 32))" "is_double (- (1 / 16))"
  unfolding is_double_def
  using round64_normal [of "- 3" "1 / 8"] round64_normal [of "- 3" "3 / 16"]
    round64_normal [of "- 2" "1 / 4"] round64_normal [of "- 2" "5 / 16"]
    round64_normal [of "- 2" "11 / 32"] round64_normal [of "- 2" "3 / 8"]
    round64_normal [of "- 2" "25 / 64"]
    round64_normal [of "- 5" "- (1 / 32)"] round64_normal [of "- 4" "- (1 / 16)"]
  by (simp_all add: round_half_even_def)

section \<open>The first scenario, evaluated\<close>

lemma scenario_ratios:
  "js_div (Fin 599025) (Fin 147150) = Fin (4583365217100937 / 2 ^ 50)"
  "js_mul (Fin 27108) (Fin 12) = Fin 325296"
  "js_div (Fin 325296) (Fin 147150) = Fin (2488961849108245 / 2 ^ 50)"
  using round64_normal [of "2" "599025 / 147150"] round64_normal [of "18" "325296"]
    round64_normal [of "1" "325296 / 147150"]
  by (simp_all add: js_div_def js_mul_def round_half_even_def)

lemma scenario_sums:
  "js_add (Fin 0) (lit 0.08) = lit 0.08"
  "js_add (lit 0.08) (lit 0.06) = lit 0.14"
  "js_sub (lit 0.14) (lit 0.02) = Fin (8646911284551353 / 2 ^ 56)"
  unfolding literals js_sub_def
  using round64_normal [of "- 4" "5764607523034235 / 2 ^ 56"]
    round64_normal [of "- 3" "5764607523034235 / 2 ^ 56 + 1080863910568919 / 2 ^ 54"]
    round64_normal [of "- 4" "1261007895663739 / 2 ^ 53 - 5764607523034235 / 2 ^ 58"]
  by (simp_all add: round_half_even_def)

lemma scenario_features:
  "creditToIncome (derived_features scenario) = Fin (4583365217100937 / 2 ^ 50)"
  "debtToIncome (derived_features scenario) = Fin (2488961849108245 / 2 ^ 50)"
  by (simp_all add: derived_features_def scenario_def scenario_ratios)

lemma scenario_branches:
  "credit_to_income_impact (creditToIncome (derived_features scenario)) s = js_add s (lit 0.08)"
  "debt_to_income_impact (debtToIncome (derived_features scenario)) s = js_add s (lit 0.06)"
  "age_impact (age scenario) s = s"
  "employment_impact (employment_years scenario) s = s"
  "contract_type_impact (contract_type scenario) s = s"
  "education_impact (education scenario) s = js_sub s (lit 0.02)"
  unfolding scenario_features
  by (simp_all add: credit_to_income_impact_def debt_to_income_impact_def age_impact_def
      employment_impact_def contract_type_impact_def education_impact_def scenario_def
      js_gt_def)

lemma scenario_score:
  "riskScore (derived_features scenario) scenario = Fin (8646911284551353 / 2 ^ 56)"
  unfolding riskScore_def scenario_branches scenario_sums ..

section \<open>The raw score and the rule table\<close>

lemma derived_ratios:
  "creditToIncome (derived_features d) = credit_to_income d"
  "debtToIncome (derived_features d) = debt_to_income d"
  by (simp_all add: derived_features_def credit_to_income_def debt_to_income_def)

lemma js_sub_lit: "x \<noteq> 0 \<Longrightarrow> js_sub s (lit x) = js_add s (lit (- x))"
  by (simp add: js_sub_def lit_minus)

lemma accumulate_simps:
  "accumulate s [] = s"
  "accumulate s (a # as) = accumulate (js_add s (lit a)) as"
  "accumulate s (xs @ ys) = accumulate (accumulate s xs) ys"
  by (simp_all add: accumulate_def)

lemma applicable_in_alt:
  "applicable_in g d =
   filter applies (filter (\<lambda>r. rule_group r = g) (adjustment_table d))"
  unfolding applicable_in_def applicable_def filter_filter
  by (rule filter_cong) auto

lemma rules_of_group:
  "filter (\<lambda>r. rule_group r = CreditToIncome) (adjustment_table d) =
     [ rule CreditToIncome (js_gt (credit_to_income d) (Fin 3)) 0.08,
       rule CreditToIncome
         (js_gt (credit_to_income d) (Fin 2) \<and> js_le (credit_to_income d) (Fin 3)) 0.05,
       rule CreditToIncome
         (js_gt (credit_to_income d) (Fin 1) \<and> js_le (credit_to_income d) (Fin 2)) 0.03 ]"
  "filter (\<lambda>r. rule_group r = DebtToIncome) (adjustment_table d) =
     [ rule DebtToIncome (js_gt (debt_to_income d) (Fin 0.5)) 0.06,
       rule DebtToIncome
         (js_gt (debt_to_income d) (lit 0.3) \<and> js_le (debt_to_income d) (Fin 0.5)) 0.03 ]"
  "filter (\<lambda>r. rule_group r = Age) (adjustment_table d) =
     [ rule Age (js_lt (age d) (Fin 25)) 0.04, rule Age (js_gt (age d) (Fin 60)) 0.02 ]"
  "filter (\<lambda>r. rule_group r = Employment) (adjustment_table d) =
     [ rule Employment (js_lt (employment_years d) (Fin 1)) 0.05,
       rule Employment
         (js_lt (employment_years d) (Fin 3) \<and> js_le (Fin 1) (employment_years d)) 0.03,
       rule Employment (js_gt (employment_years d) (Fin 10)) (- 0.02) ]"
  "filter (\<lambda>r. rule_group r = ContractType) (adjustment_table d) =
     [ rule ContractType (contract_type d = ''Revolving loans'') 0.02 ]"
  "filter (\<lambda>r. rule_group r = Education) (adjustment_table d) =
     [ rule Education (education d \<in> {''Academic degree'', ''Higher education''}) (- 0.02),
       rule Education (education d = ''Lower secondary'') 0.02 ]"
  by (simp_all add: adjustment_table_def rule_def)

lemma table_by_groups:
  "adjustment_table d =
     filter (\<lambda>r. rule_group r = CreditToIncome) (adjustment_table d)
     @ filter (\<lambda>r. rule_group r = DebtToIncome) (adjustment_table d)
     @ filter (\<lambda>r. rule_group r = Age) (adjustment_table d)
     @ filter (\<lambda>r. rule_group r = Employment) (adjustment_table d)
     @ filter (\<lambda>r. rule_group r = ContractType) (adjustment_table d)
     @ filter (\<lambda>r. rule_group r = Education) (adjustment_table d)"
  unfolding rules_of_group by (simp add: adjustment_table_def)

lemma applicable_by_groups:
  "applicable d =
     applicable_in CreditToIncome d @ applicable_in DebtToIncome d @ applicable_in Age d
     @ applicable_in Employment d @ applicable_in ContractType d @ applicable_in Education d"
proof -
  have "applicable d = filter applies (adjustment_table d)"
    by (simp add: applicable_def)
  also have "\<dots> =
     filter applies
      (filter (\<lambda>r. rule_group r = CreditToIncome) (adjustment_table d)
       @ filter (\<lambda>r. rule_group r = DebtToIncome) (adjustment_table d)
       @ filter (\<lambda>r. rule_group r = Age) (adjustment_table d)
       @ filter (\<lambda>r. rule_group r = Employment) (adjustment_table d)
       @ filter (\<lambda>r. rule_group r = ContractType) (adjustment_table d)
       @ filter (\<lambda>r. rule_group r = Education) (adjustment_table d))"
    by (rule arg_cong [OF table_by_groups])
  also have "\<dots> =
     applicable_in CreditToIncome d @ applicable_in DebtToIncome d @ applicable_in Age d
     @ applicable_in Employment d @ applicable_in ContractType d @ applicable_in Education d"
    by (simp only: filter_append applicable_in_alt)
  finally show ?thesis .
qed

lemma js_lt_NaN: "js_lt x NaN = False"
  by (cases x) simp_all

lemma blocks_accumulate:
  "credit_to_income_impact (credit_to_income d) s =
     accumulate s (map adjustment (applicable_in CreditToIncome d))"
  "debt_to_income_impact (debt_to_income d) s =
     accumulate s (map adjustment (applicable_in DebtToIncome d))"
  "age_impact (age d) s = accumulate s (map adjustment (applicable_in Age d))"
  "employment_impact (employment_years d) s =
     accumulate s (map adjustment (applicable_in Employment d))"
  "contract_type_impact (contract_type d) s =
     accumulate s (map adjustment (applicable_in ContractType d))"
  "education_impact (education d) s =
     accumulate s (map adjustment (applicable_in Education d))"
proof -
  show "credit_to_income_impact (credit_to_income d) s =
     accumulate s (map adjustment (applicable_in CreditToIncome d))"
    by (cases "credit_to_income d")
       (auto simp: credit_to_income_impact_def accumulate_def applicable_in_alt rules_of_group
          rule_def js_gt_def js_le_def)
  show "debt_to_income_impact (debt_to_income d) s =
     accumulate s (map adjustment (applicable_in DebtToIncome d))"
    by (cases "debt_to_income d")
       (auto simp: debt_to_income_impact_def accumulate_def applicable_in_alt rules_of_group
          rule_def js_gt_def js_le_def js_lt_NaN)
  show "age_impact (age d) s = accumulate s (map adjustment (applicable_in Age d))"
    by (cases "age d")
       (auto simp: age_impact_def accumulate_def applicable_in_alt rules_of_group
          rule_def js_gt_def js_le_def)
  show "employment_impact (employment_years d) s =
     accumulate s (map adjustment (applicable_in Employment d))"
    by (cases "employment_years d")
       (auto simp: employment_impact_def accumulate_def applicable_in_alt rules_of_group
          rule_def js_gt_def js_le_def js_sub_lit)
  show "contract_type_impact (contract_type d) s =
     accumulate s (map adjustment (applicable_in ContractType d))"
    by (simp add: contract_type_impact_def accumulate_def applicable_in_alt rules_of_group
          rule_def)
  show "education_impact (education d) s =
     accumulate s (map adjustment (applicable_in Education d))"
    by (simp add: education_impact_def accumulate_def applicable_in_alt rules_of_group
          rule_def js_sub_lit)
qed

lemma blocks_of_features:
  "credit_to_income_impact (creditToIncome (derived_features d)) s =
     accumulate s (map adjustment (applicable_in CreditToIncome d))"
  "debt_to_income_impact (debtToIncome (derived_features d)) s =
     accumulate s (map adjustment (applicable_in DebtToIncome d))"
  unfolding derived_ratios by (rule blocks_accumulate)+

lemma riskScore_table64: "riskScore (derived_features d) d = table_score64 d"
  unfolding table_score64_def applicable_by_groups map_append accumulate_simps(3)
    blocks_accumulate [symmetric] riskScore_def derived_ratios ..

lemma one_per_group: "length (applicable_in g d) \<le> 1"
proof (cases g)
  case CreditToIncome
  then show ?thesis
    by (cases "credit_to_income d")
       (auto simp: applicable_in_alt rules_of_group rule_def js_gt_def js_le_def)
next
  case DebtToIncome
  then show ?thesis
    by (cases "debt_to_income d")
       (auto simp: applicable_in_alt rules_of_group rule_def js_gt_def js_le_def)
next
  case Age
  then show ?thesis
    by (cases "age d")
       (auto simp: applicable_in_alt rules_of_group rule_def js_gt_def js_le_def)
next
  case Employment
  then show ?thesis
    by (cases "employment_years d")
       (auto simp: applicable_in_alt rules_of_group rule_def js_gt_def js_le_def)
next
  case ContractType
  then show ?thesis
    by (simp add: applicable_in_alt rules_of_group rule_def)
next
  case Education
  then show ?thesis
    by (auto simp: applicable_in_alt rules_of_group rule_def)
qed

lemma boundary_three:
  "credit_to_income d = Fin 3 \<Longrightarrow> map adjustment (applicable_in CreditToIncome d) = [0.05]"
  by (simp add: applicable_in_alt rules_of_group rule_def js_gt_def js_le_def)

lemma threefold_ratio: "credit_to_income threefold = Fin 3"
  using round64_normal [of "1" "300000 / 100000"]
  by (simp add: credit_to_income_def threefold_def scenario_def js_div_def round_half_even_def)

text \<open>The quotient of \<open>3 * 2 ^ 52 + 4\<close> by \<open>2 ^ 52 + 1\<close> is \<open>3 + 1 / (2 ^ 52 + 1)\<close>; the
  binary64 numbers next to it are 3 and \<open>3 + 2 / 2 ^ 52\<close>, and 3 is the nearer one.\<close>

lemma near_threefold_ratio: "creditToIncome (derived_features near_threefold) = Fin 3"
  using round64_normal [of "1" "(3 * 2 ^ 52 + 4) / (2 ^ 52 + 1)"]
  by (simp add: derived_features_def near_threefold_def scenario_def js_div_def
      round_half_even_def)

lemma zero_plus_lit: "lit x = Fin y \<Longrightarrow> js_add (Fin 0) (lit x) = lit x"
  using lit_is_double [of x y] by (simp add: is_double_def)

lemma sum_applicable:
  "sum_list (map adjustment (filter applies rs)) =
   sum_list (map (\<lambda>r. if applies r then adjustment r else 0) rs)"
  by (induction rs) simp_all

lemma scenario_table_ratios:
  "credit_to_income scenario = Fin (4583365217100937 / 2 ^ 50)"
  "debt_to_income scenario = Fin (2488961849108245 / 2 ^ 50)"
  by (simp_all add: credit_to_income_def debt_to_income_def scenario_def scenario_ratios)

lemma scenario_table_score: "table_score scenario = 0.12"
  unfolding table_score_def applicable_def sum_applicable adjustment_table_def
    scenario_table_ratios lit_03
  by (simp add: rule_def js_gt_def js_le_def scenario_def)

lemma reordered_sums:
  "js_add (lit 0.08) (lit (- 0.02)) = lit 0.06"
  "js_add (lit 0.06) (lit 0.06) = lit 0.12"
  unfolding literals lit_m002
  using round64_normal [of "- 5" "5764607523034235 / 2 ^ 56 + - (5764607523034235 / 2 ^ 58)"]
    round64_normal [of "- 4" "8646911284551352 / 2 ^ 57 + 8646911284551352 / 2 ^ 57"]
  by (simp_all add: round_half_even_def)

lemma accumulate_orders:
  "accumulate (Fin 0) [0.08, 0.06, - 0.02] = Fin (8646911284551353 / 2 ^ 56)"
  "accumulate (Fin 0) [0.08, - 0.02, 0.06] = Fin (8646911284551352 / 2 ^ 56)"
  unfolding accumulate_def foldl_Cons foldl_Nil scenario_sums(1,2) reordered_sums lit_012
  using scenario_sums(3) by (simp_all add: js_sub_def lit_minus)

text \<open>
  Claim C1, as stated, fails.  The score that \<open>predictRisk\<close> accumulates is a binary64
  number, each \<open>+=\<close> rounding its result.  For the applicant of the first scenario the
  applicable adjustments are 0.08, 0.06 and -0.02, whose sum is 0.12; the program computes
  0 + 0.08 + 0.06 - 0.02 = 0.12000000000000001, the binary64 number that follows the one
  nearest to 0.12.  The result depends on the order of the additions: 0 + 0.08 - 0.02 +
  0.06 is the binary64 number nearest to 0.12.  And the row of the table is chosen on the rounded quotient: a credit
  of \<open>3 * 2 ^ 52 + 4\<close> over an income of \<open>2 ^ 52 + 1\<close> is a ratio above 3, the quotient
  rounds to 3, and the program adds 0.05, not 0.08.
\<close>

theorem raw_score_is_not_the_decimal_sum:
  "riskScore (derived_features scenario) scenario = Fin (8646911284551353 / 2 ^ 56)
   \<and> table_score scenario = 0.12
   \<and> lit 0.12 = Fin (8646911284551352 / 2 ^ 56)
   \<and> riskScore (derived_features scenario) scenario \<noteq> Fin (table_score scenario)
   \<and> riskScore (derived_features scenario) scenario \<noteq> lit (table_score scenario)
   \<and> accumulate (Fin 0) [0.08, 0.06, - 0.02] = Fin (8646911284551353 / 2 ^ 56)
   \<and> accumulate (Fin 0) [0.08, - 0.02, 0.06] = Fin (8646911284551352 / 2 ^ 56)
   \<and> 3 < val (credit_amount near_threefold) / val (annual_income near_threefold)
   \<and> credit_to_income_impact (creditToIncome (derived_features near_threefold)) (Fin 0) =
       lit 0.05
   \<and> lit 0.05 \<noteq> lit 0.08"
proof (intro conjI)
  show "riskScore (derived_features scenario) scenario = Fin (8646911284551353 / 2 ^ 56)"
    by (rule scenario_score)
  show "table_score scenario = 0.12"
    by (rule scenario_table_score)
  show "lit 0.12 = Fin (8646911284551352 / 2 ^ 56)"
    by (rule lit_012)
  show "riskScore (derived_features scenario) scenario \<noteq> Fin (table_score scenario)"
    unfolding scenario_score scenario_table_score by simp
  show "riskScore (derived_features scenario) scenario \<noteq> lit (table_score scenario)"
    unfolding scenario_score scenario_table_score lit_012 by simp
  show "accumulate (Fin 0) [0.08, 0.06, - 0.02] = Fin (8646911284551353 / 2 ^ 56)"
    by (rule accumulate_orders)
  show "accumulate (Fin 0) [0.08, - 0.02, 0.06] = Fin (8646911284551352 / 2 ^ 56)"
    by (rule accumulate_orders)
  show "3 < val (credit_amount near_threefold) / val (annual_income near_threefold)"
    by (simp add: near_threefold_def scenario_def)
  show "credit_to_income_impact (creditToIncome (derived_features near_threefold)) (Fin 0) =
       lit 0.05"
    unfolding near_threefold_ratio
    using zero_plus_lit [OF lit_005]
    by (simp add: credit_to_income_impact_def js_gt_def)
  show "lit 0.05 \<noteq> lit 0.08"
    unfolding literals by simp
qed

text \<open>
  Claim C1, amended.  For every applicant record the score that \<open>predictRisk\<close> has
  accumulated when it reaches the clamp is what adding the adjustments of the applicable
  rows of the specification's table gives in binary64 arithmetic: starting from 0, in the
  order of the table, each adjustment being the binary64 number nearest to its decimal
  and each addition being rounded.  The ratios of the table are the rounded quotients
  credit / income and (annuity * 12) / income, which are the ones the program derives;
  every threshold is compared strictly.  In each rule group at most one row applies, and
  the block of the group adds the adjustment of that row, if any, to the score.  A
  credit-to-income quotient of exactly 3 earns the 0.05 of the row "above 2 and at most
  3", not the 0.08 of the row "above 3".  The statement needs no assumption on the income;
  records with a positive income are among those it covers.
\<close>

theorem raw_score_accumulates_table:
  "riskScore (derived_features d) d = table_score64 d
   \<and> creditToIncome (derived_features d) = js_div (credit_amount d) (annual_income d)
   \<and> debtToIncome (derived_features d) =
       js_div (js_mul (annuity d) (Fin 12)) (annual_income d)
   \<and> credit_to_income d = js_div (credit_amount d) (annual_income d)
   \<and> debt_to_income d = js_div (js_mul (annuity d) (Fin 12)) (annual_income d)
   \<and> (\<forall>g. length (applicable_in g d) \<le> 1)
   \<and> (\<forall>s. credit_to_income_impact (creditToIncome (derived_features d)) s =
          accumulate s (map adjustment (applicable_in CreditToIncome d))
        \<and> debt_to_income_impact (debtToIncome (derived_features d)) s =
          accumulate s (map adjustment (applicable_in DebtToIncome d))
        \<and> age_impact (age d) s = accumulate s (map adjustment (applicable_in Age d))
        \<and> employment_impact (employment_years d) s =
          accumulate s (map adjustment (applicable_in Employment d))
        \<and> contract_type_impact (contract_type d) s =
          accumulate s (map adjustment (applicable_in ContractType d))
        \<and> education_impact (education d) s =
          accumulate s (map adjustment (applicable_in Education d)))
   \<and> (credit_to_income d = Fin 3 \<longrightarrow>
        map adjustment (applicable_in CreditToIncome d) = [0.05]
        \<and> credit_to_income_impact (creditToIncome (derived_features d)) (Fin 0) = lit 0.05)"
proof (intro conjI allI impI)
  show "riskScore (derived_features d) d = table_score64 d"
    by (rule riskScore_table64)
  show "creditToIncome (derived_features d) = js_div (credit_amount d) (annual_income d)"
    by (simp add: derived_features_def)
  show "debtToIncome (derived_features d) =
       js_div (js_mul (annuity d) (Fin 12)) (annual_income d)"
    by (simp add: derived_features_def)
  show "credit_to_income d = js_div (credit_amount d) (annual_income d)"
    by (rule credit_to_income_def)
  show "debt_to_income d = js_div (js_mul (annuity d) (Fin 12)) (annual_income d)"
    by (rule debt_to_income_def)
  show "length (applicable_in g d) \<le> 1" for g
    by (rule one_per_group)
  show "map adjustment (applicable_in CreditToIncome d) = [0.05]"
    if "credit_to_income d = Fin 3"
    using that by (rule boundary_three)
  show "credit_to_income_impact (creditToIncome (derived_features d)) (Fin 0) = lit 0.05"
    if "credit_to_income d = Fin 3"
    unfolding derived_ratios that
    using zero_plus_lit [OF lit_005]
    by (simp add: credit_to_income_impact_def js_gt_def)
qed (rule blocks_of_features blocks_accumulate)+

theorem raw_score_accumulates_table_witness:
  "credit_to_income threefold = Fin 3
   \<and> riskScore (derived_features threefold) threefold = table_score64 threefold
   \<and> map adjustment (applicable_in CreditToIncome threefold) = [0.05]
   \<and> credit_to_income_impact (creditToIncome (derived_features threefold)) (Fin 0) = lit 0.05
   \<and> length (applicable_in Age threefold) \<le> 1"
proof -
  note table = raw_score_accumulates_table [of threefold]
  have "map adjustment (applicable_in CreditToIncome threefold) = [0.05]
    \<and> credit_to_income_impact (creditToIncome (derived_features threefold)) (Fin 0) = lit 0.05"
    using table threefold_ratio by blast
  moreover have "riskScore (derived_features threefold) threefold = table_score64 threefold"
    using table by blast
  moreover have "length (applicable_in Age threefold) \<le> 1"
    using table by blast
  ultimately show ?thesis
    using threefold_ratio by blast
qed

section \<open>The first scenario\<close>

lemma scenario_clamp:
  "baseProbability (Fin (8646911284551353 / 2 ^ 56)) = Fin (8646911284551353 / 2 ^ 56)"
  unfolding baseProbability_def lit_04 by (simp add: Math_max_def Math_min_def)

lemma scenario_score_decimal: "lit 0.12000000000000001 = Fin (8646911284551353 / 2 ^ 56)"
  unfolding lit_def using round64_normal [of "- 4" "0.12000000000000001"]
  by (simp add: round_half_even_def)

text \<open>
  Claim C2, as stated, fails.  For the applicant of the scenario the scorer's
  debt-to-income ratio is the quotient of 27108 * 12 = 325296 by 147150, about 2.21 and
  not 0.221; it exceeds 0.5 and earns 0.06, so that the raw score is not 0.06, and
  neither is the clamped score.
\<close>

theorem scenario_debt_ratio_earns_adjustment:
  "debtToIncome (derived_features scenario) = Fin (2488961849108245 / 2 ^ 50)
   \<and> js_gt (debtToIncome (derived_features scenario)) (Fin 2.21)
   \<and> js_gt (debtToIncome (derived_features scenario)) (Fin 0.5)
   \<and> debt_to_income_impact (debtToIncome (derived_features scenario)) (lit 0.08) = lit 0.14
   \<and> riskScore (derived_features scenario) scenario = Fin (8646911284551353 / 2 ^ 56)
   \<and> riskScore (derived_features scenario) scenario \<noteq> lit 0.06
   \<and> riskScore (derived_features scenario) scenario \<noteq> Fin 0.06
   \<and> baseProbability (riskScore (derived_features scenario) scenario) \<noteq> lit 0.06"
proof (intro conjI)
  show "debtToIncome (derived_features scenario) = Fin (2488961849108245 / 2 ^ 50)"
    by (rule scenario_features)
  show "js_gt (debtToIncome (derived_features scenario)) (Fin 2.21)"
    unfolding scenario_features by (simp add: js_gt_def)
  show "js_gt (debtToIncome (derived_features scenario)) (Fin 0.5)"
    unfolding scenario_features by (simp add: js_gt_def)
  show "debt_to_income_impact (debtToIncome (derived_features scenario)) (lit 0.08) = lit 0.14"
    unfolding scenario_branches scenario_sums ..
  show "riskScore (derived_features scenario) scenario = Fin (8646911284551353 / 2 ^ 56)"
    by (rule scenario_score)
  show "riskScore (derived_features scenario) scenario \<noteq> lit 0.06"
    unfolding scenario_score lit_006 by simp
  show "riskScore (derived_features scenario) scenario \<noteq> Fin 0.06"
    unfolding scenario_score by simp
  show "baseProbability (riskScore (derived_features scenario) scenario) \<noteq> lit 0.06"
    unfolding scenario_score scenario_clamp lit_006 by simp
qed

text \<open>
  Claim C2, amended.  For income 147150, credit 599025, annuity 27108, age 35, five
  years of employment, gender F, a cash loan and higher education, the credit-to-income
  ratio is the binary64 quotient of 599025 by 147150, between 4.07 and 4.08, and earns
  0.08; the debt-to-income ratio is the binary64 quotient of 27108 * 12 by 147150,
  between 2.21 and 2.211, and earns 0.06; age, employment and contract type leave the
  score as it is; education subtracts 0.02.  The raw score is the binary64 result of
  0 + 0.08 + 0.06 - 0.02, which is 0.12000000000000001, the binary64 number that follows
  the one nearest to 0.12; the clamped score is the same number.
\<close>

theorem scenario_score_after_rounding:
  "creditToIncome (derived_features scenario) = js_div (Fin 599025) (Fin 147150)
   \<and> creditToIncome (derived_features scenario) = Fin (4583365217100937 / 2 ^ 50)
   \<and> js_gt (Fin 4.08) (creditToIncome (derived_features scenario))
   \<and> js_gt (creditToIncome (derived_features scenario)) (Fin 4.07)
   \<and> credit_to_income_impact (creditToIncome (derived_features scenario)) (Fin 0) = lit 0.08
   \<and> debtToIncome (derived_features scenario) =
       js_div (js_mul (Fin 27108) (Fin 12)) (Fin 147150)
   \<and> debtToIncome (derived_features scenario) = Fin (2488961849108245 / 2 ^ 50)
   \<and> js_gt (debtToIncome (derived_features scenario)) (Fin 2.21)
   \<and> js_gt (Fin 2.211) (debtToIncome (derived_features scenario))
   \<and> debt_to_income_impact (debtToIncome (derived_features scenario)) (lit 0.08) = lit 0.14
   \<and> age_impact (age scenario) (lit 0.14) = lit 0.14
   \<and> employment_impact (employment_years scenario) (lit 0.14) = lit 0.14
   \<and> contract_type_impact (contract_type scenario) (lit 0.14) = lit 0.14
   \<and> education_impact (education scenario) (lit 0.14) = lit 0.12000000000000001
   \<and> riskScore (derived_features scenario) scenario = lit 0.12000000000000001
   \<and> baseProbability (riskScore (derived_features scenario) scenario) =
       lit 0.12000000000000001
   \<and> lit 0.12000000000000001 = Fin (8646911284551353 / 2 ^ 56)
   \<and> lit 0.12 = Fin (8646911284551352 / 2 ^ 56)"
proof (intro conjI)
  show "creditToIncome (derived_features scenario) = js_div (Fin 599025) (Fin 147150)"
    by (simp add: derived_features_def scenario_def)
  show "creditToIncome (derived_features scenario) = Fin (4583365217100937 / 2 ^ 50)"
    by (rule scenario_features)
  show "js_gt (Fin 4.08) (creditToIncome (derived_features scenario))"
    unfolding scenario_features by (simp add: js_gt_def)
  show "js_gt (creditToIncome (derived_features scenario)) (Fin 4.07)"
    unfolding scenario_features by (simp add: js_gt_def)
  show "credit_to_income_impact (creditToIncome (derived_features scenario)) (Fin 0) = lit 0.08"
    unfolding scenario_branches scenario_sums ..
  show "debtToIncome (derived_features scenario) =
       js_div (js_mul (Fin 27108) (Fin 12)) (Fin 147150)"
    by (simp add: derived_features_def scenario_def)
  show "debtToIncome (derived_features scenario) = Fin (2488961849108245 / 2 ^ 50)"
    by (rule scenario_features)
  show "js_gt (debtToIncome (derived_features scenario)) (Fin 2.21)"
    unfolding scenario_features by (simp add: js_gt_def)
  show "js_gt (Fin 2.211) (debtToIncome (derived_features scenario))"
    unfolding scenario_features by (simp add: js_gt_def)
  show "debt_to_income_impact (debtToIncome (derived_features scenario)) (lit 0.08) = lit 0.14"
    unfolding scenario_branches scenario_sums ..
  show "age_impact (age scenario) (lit 0.14) = lit 0.14"
    by (rule scenario_branches)
  show "employment_impact (employment_years scenario) (lit 0.14) = lit 0.14"
    by (rule scenario_branches)
  show "contract_type_impact (contract_type scenario) (lit 0.14) = lit 0.14"
    by (rule scenario_branches)
  show "education_impact (education scenario) (lit 0.14) = lit 0.12000000000000001"
    unfolding scenario_branches scenario_sums scenario_score_decimal ..
  show "riskScore (derived_features scenario) scenario = lit 0.12000000000000001"
    unfolding scenario_score scenario_score_decimal ..
  show "baseProbability (riskScore (derived_features scenario) scenario) =
       lit 0.12000000000000001"
    unfolding scenario_score scenario_score_decimal scenario_clamp ..
  show "lit 0.12000000000000001 = Fin (8646911284551353 / 2 ^ 56)"
    by (rule scenario_score_decimal)
  show "lit 0.12 = Fin (8646911284551352 / 2 ^ 56)"
    by (rule lit_012)
qed

section \<open>The range of the raw score\<close>

text \<open>
  Each block moves the score within fixed bounds, so the raw score is a binary64 number
  between -1/16 and 3/8: the upper clamp at 0.4 is never active.
\<close>

lemma step_range:
  assumes "lit a = Fin c" and "is_double s" and "l \<le> s" and "s \<le> h"
    and "is_double lo" and "is_double hi" and "lo \<le> 0" and "0 \<le> hi"
    and "lo \<le> l + c" and "h + c \<le> hi"
  shows "\<exists>t. js_add (Fin s) (lit a) = Fin t \<and> is_double t \<and> lo \<le> t \<and> t \<le> hi"
proof -
  have "lo \<le> s + c" "s + c \<le> hi"
    using assms(3,4,9,10) by linarith+
  from js_add_doubles [OF assms(2) lit_is_double [OF assms(1)] assms(5,6,7,8) this]
  show ?thesis unfolding assms(1) .
qed

lemma credit_range:
  "\<exists>t. credit_to_income_impact r (Fin 0) = Fin t \<and> is_double t \<and> 0 \<le> t \<and> t \<le> 1 / 8"
proof -
  note step = is_double_0 order_refl order_refl is_double_0 dyadic_doubles(1)
  have a: "\<exists>t. js_add (Fin 0) (lit 0.08) = Fin t \<and> is_double t \<and> 0 \<le> t \<and> t \<le> 1 / 8"
    by (rule step_range [OF lit_008 step]) simp_all
  have b: "\<exists>t. js_add (Fin 0) (lit 0.05) = Fin t \<and> is_double t \<and> 0 \<le> t \<and> t \<le> 1 / 8"
    by (rule step_range [OF lit_005 step]) simp_all
  have c: "\<exists>t. js_add (Fin 0) (lit 0.03) = Fin t \<and> is_double t \<and> 0 \<le> t \<and> t \<le> 1 / 8"
    by (rule step_range [OF lit_003 step]) simp_all
  show ?thesis
    using a b c by (auto simp: credit_to_income_impact_def is_double_0)
qed

lemma debt_range:
  assumes "is_double s" and "0 \<le> s" and "s \<le> 1 / 8"
  shows "\<exists>t. debt_to_income_impact r (Fin s) = Fin t \<and> is_double t \<and> 0 \<le> t \<and> t \<le> 3 / 16"
proof -
  note step = assms is_double_0 dyadic_doubles(2)
  have a: "\<exists>t. js_add (Fin s) (lit 0.06) = Fin t \<and> is_double t \<and> 0 \<le> t \<and> t \<le> 3 / 16"
    by (rule step_range [OF lit_006 step]) simp_all
  have b: "\<exists>t. js_add (Fin s) (lit 0.03) = Fin t \<and> is_double t \<and> 0 \<le> t \<and> t \<le> 3 / 16"
    by (rule step_range [OF lit_003 step]) simp_all
  show ?thesis
    using a b assms by (auto simp: debt_to_income_impact_def)
qed

lemma age_range:
  assumes "is_double s" and "0 \<le> s" and "s \<le> 3 / 16"
  shows "\<exists>t. age_impact r (Fin s) = Fin t \<and> is_double t \<and> 0 \<le> t \<and> t \<le> 1 / 4"
proof -
  note step = assms is_double_0 dyadic_doubles(3)
  have a: "\<exists>t. js_add (Fin s) (lit 0.04) = Fin t \<and> is_double t \<and> 0 \<le> t \<and> t \<le> 1 / 4"
    by (rule step_range [OF lit_004 step]) simp_all
  have b: "\<exists>t. js_add (Fin s) (lit 0.02) = Fin t \<and> is_double t \<and> 0 \<le> t \<and> t \<le> 1 / 4"
    by (rule step_range [OF lit_002 step]) simp_all
  show ?thesis
    using a b assms by (auto simp: age_impact_def)
qed

lemma employment_range:
  assumes "is_double s" and "0 \<le> s" and "s \<le> 1 / 4"
  shows "\<exists>t. employment_impact r (Fin s) = Fin t \<and> is_double t
           \<and> - (1 / 32) \<le> t \<and> t \<le> 5 / 16"
proof -
  note step = assms dyadic_doubles(8) dyadic_doubles(4)
  have a: "\<exists>t. js_add (Fin s) (lit 0.05) = Fin t \<and> is_double t
             \<and> - (1 / 32) \<le> t \<and> t \<le> 5 / 16"
    by (rule step_range [OF lit_005 step]) simp_all
  have b: "\<exists>t. js_add (Fin s) (lit 0.03) = Fin t \<and> is_double t
             \<and> - (1 / 32) \<le> t \<and> t \<le> 5 / 16"
    by (rule step_range [OF lit_003 step]) simp_all
  have c: "\<exists>t. js_add (Fin s) (lit (- 0.02)) = Fin t \<and> is_double t
             \<and> - (1 / 32) \<le> t \<and> t \<le> 5 / 16"
    by (rule step_range [OF lit_m002 step]) simp_all
  show ?thesis
    using a b c assms by (auto simp: employment_impact_def js_sub_lit)
qed

lemma contract_range:
  assumes "is_double s" and "- (1 / 32) \<le> s" and "s \<le> 5 / 16"
  shows "\<exists>t. contract_type_impact r (Fin s) = Fin t \<and> is_double t
           \<and> - (1 / 32) \<le> t \<and> t \<le> 11 / 32"
proof -
  note step = assms dyadic_doubles(8) dyadic_doubles(5)
  have a: "\<exists>t. js_add (Fin s) (lit 0.02) = Fin t \<and> is_double t
             \<and> - (1 / 32) \<le> t \<and> t \<le> 11 / 32"
    by (rule step_range [OF lit_002 step]) simp_all
  show ?thesis
    using a assms by (auto simp: contract_type_impact_def)
qed

lemma education_range:
  assumes "is_double s" and "- (1 / 32) \<le> s" and "s \<le> 11 / 32"
  shows "\<exists>t. education_impact r (Fin s) = Fin t \<and> is_double t
           \<and> - (1 / 16) \<le> t \<and> t \<le> 3 / 8"
proof -
  note step = assms dyadic_doubles(9) dyadic_doubles(6)
  have a: "\<exists>t. js_add (Fin s) (lit 0.02) = Fin t \<and> is_double t
             \<and> - (1 / 16) \<le> t \<and> t \<le> 3 / 8"
    by (rule step_range [OF lit_002 step]) simp_all
  have c: "\<exists>t. js_add (Fin s) (lit (- 0.02)) = Fin t \<and> is_double t
             \<and> - (1 / 16) \<le> t \<and> t \<le> 3 / 8"
    by (rule step_range [OF lit_m002 step]) simp_all
  show ?thesis
    using a c assms by (auto simp: education_impact_def js_sub_lit)
qed

lemma riskScore_range:
  "\<exists>s. riskScore f d = Fin s \<and> is_double s \<and> - (1 / 16) \<le> s \<and> s \<le> 3 / 8"
proof -
  obtain s1 where 1: "credit_to_income_impact (creditToIncome f) (Fin 0) = Fin s1"
    "is_double s1" "0 \<le> s1" "s1 \<le> 1 / 8"
    using credit_range by blast
  obtain s2 where 2: "debt_to_income_impact (debtToIncome f) (Fin s1) = Fin s2"
    "is_double s2" "0 \<le> s2" "s2 \<le> 3 / 16"
    using debt_range [OF 1(2,3,4)] by blast
  obtain s3 where 3: "age_impact (age d) (Fin s2) = Fin s3"
    "is_double s3" "0 \<le> s3" "s3 \<le> 1 / 4"
    using age_range [OF 2(2,3,4)] by blast
  obtain s4 where 4: "employment_impact (employment_years d) (Fin s3) = Fin s4"
    "is_double s4" "- (1 / 32) \<le> s4" "s4 \<le> 5 / 16"
    using employment_range [OF 3(2,3,4)] by blast
  obtain s5 where 5: "contract_type_impact (contract_type d) (Fin s4) = Fin s5"
    "is_double s5" "- (1 / 32) \<le> s5" "s5 \<le> 11 / 32"
    using contract_range [OF 4(2,3,4)] by blast
  obtain s6 where 6: "education_impact (education d) (Fin s5) = Fin s6"
    "is_double s6" "- (1 / 16) \<le> s6" "s6 \<le> 3 / 8"
    using education_range [OF 5(2,3,4)] by blast
  have "riskScore f d = Fin s6"
    unfolding riskScore_def 1(1) 2(1) 3(1) 4(1) 5(1) 6(1) ..
  then show ?thesis using 6(2,3,4) by blast
qed

lemma clamp_of_score: "s \<le> 3 / 8 \<Longrightarrow> baseProbability (Fin s) = Fin (max 0 s)"
  unfolding baseProbability_def lit_04 by (auto simp: Math_max_def Math_min_def)

lemma upper_clamp_inactive:
  "\<exists>s. riskScore f d = Fin s \<and> is_double s \<and> s \<le> 3 / 8
       \<and> baseProbability (riskScore f d) = Fin (max 0 s) \<and> is_double (max 0 s)"
  using riskScore_range [of f d] by (auto simp: clamp_of_score max_def is_double_0)

section \<open>The perturbation\<close>

lemma perturbation_alt:
  "perturbation u =
   js_add (js_mul (Fin u) (Fin (5764607523034235 / 2 ^ 58))) (Fin (- (5764607523034235 / 2 ^ 59)))"
  unfolding perturbation_def js_sub_def lit_001 lit_002 by simp

lemma literal_doubles:
  "is_double (5764607523034235 / 2 ^ 58)" "is_double (5764607523034235 / 2 ^ 59)"
  "is_double (- (5764607523034235 / 2 ^ 59))" "is_double (5764607523034235 / 2 ^ 60)"
  "is_double (- (5764607523034235 / 2 ^ 60))"
  using lit_is_double [OF lit_002] lit_is_double [OF lit_001] lit_is_double [OF lit_m001]
    round64_normal [of "- 8" "5764607523034235 / 2 ^ 60"]
    round64_normal [of "- 8" "- (5764607523034235 / 2 ^ 60)"]
  by (simp_all add: is_double_def round_half_even_def)

lemma perturbation_double:
  assumes "perturbation u = Fin e"
  shows "is_double e"
proof (cases "js_mul (Fin u) (Fin (5764607523034235 / 2 ^ 58))")
  case (Fin y)
  then show ?thesis
    using assms round64_is_double [of "y + - (5764607523034235 / 2 ^ 59)" e]
    by (simp add: perturbation_alt)
next
  case NegZero
  then show ?thesis
    using assms round64_is_double [of "- (5764607523034235 / 2 ^ 59)" e]
    by (simp add: perturbation_alt)
qed (use assms in \<open>simp_all add: perturbation_alt\<close>)

lemma perturbation_ends:
  "perturbation 0 = Fin (- (5764607523034235 / 2 ^ 59))"
  "perturbation 1 = Fin (5764607523034235 / 2 ^ 59)"
  "perturbation (1 / 2) = Fin 0"
  "perturbation (1 / 4) = Fin (- (5764607523034235 / 2 ^ 60))"
  unfolding perturbation_alt
  using literal_doubles
    round64_normal [of "- 7" "5764607523034235 / 2 ^ 58 / 2"]
    round64_normal [of "- 8" "5764607523034235 / 2 ^ 58 / 4"]
  by (simp_all add: js_mul_def is_double_def round_half_even_def round64_def [of 0])

lemma perturbation_range:
  assumes "0 \<le> u" and "u \<le> 1"
  shows "\<exists>e. perturbation u = Fin e \<and> is_double e
           \<and> - (5764607523034235 / 2 ^ 59) \<le> e \<and> e \<le> 5764607523034235 / 2 ^ 59"
proof (cases "u = 0")
  case True
  then show ?thesis
    using literal_doubles(3) by (simp add: perturbation_ends)
next
  case False
  let ?x = "u * (5764607523034235 / 2 ^ 58)"
  have x: "0 < ?x" "?x \<le> 5764607523034235 / 2 ^ 58"
    using False assms by simp_all
  have mul: "js_mul (Fin u) (Fin (5764607523034235 / 2 ^ 58)) = round64 ?x"
    using False by (simp add: js_mul_def)
  have le: "js_le (round64 ?x) (Fin (5764607523034235 / 2 ^ 58))"
    using literal_doubles(1) _ x(2) by (rule round64_le) simp
  from round64_sign(1) [OF x(1)] le
  obtain y where y: "round64 ?x = Fin y" "0 \<le> y" "y \<le> 5764607523034235 / 2 ^ 58"
    by (auto simp: js_le_def)
  have "\<exists>t. js_add (Fin y) (Fin (- (5764607523034235 / 2 ^ 59))) = Fin t \<and> is_double t
           \<and> - (5764607523034235 / 2 ^ 59) \<le> t \<and> t \<le> 5764607523034235 / 2 ^ 59"
    using round64_is_double [OF y(1)] literal_doubles(3) literal_doubles(3) literal_doubles(2)
  proof (rule js_add_doubles)
    show "- (5764607523034235 / 2 ^ 59) \<le> y + - (5764607523034235 / 2 ^ 59)"
      using y(2) by simp
    show "y + - (5764607523034235 / 2 ^ 59) \<le> 5764607523034235 / 2 ^ 59"
      using y(3) by simp
  qed simp_all
  then show ?thesis
    unfolding perturbation_alt mul y(1) .
qed

lemma perturbation_outside:
  assumes "perturbation u = Fin e"
  shows "u < 0 \<Longrightarrow> e \<le> - (5764607523034235 / 2 ^ 59)"
    and "1 < u \<Longrightarrow> 5764607523034235 / 2 ^ 59 \<le> e"
proof -
  let ?x = "u * (5764607523034235 / 2 ^ 58)"
  have mul: "js_mul (Fin u) (Fin (5764607523034235 / 2 ^ 58)) = round64 ?x" if "u \<noteq> 0"
    using that by (simp add: js_mul_def)
  show "e \<le> - (5764607523034235 / 2 ^ 59)" if u: "u < 0"
  proof -
    have x: "?x < 0" using u by (simp add: mult_less_0_iff)
    have nz: "u \<noteq> 0" using u by simp
    have e: "js_add (round64 ?x) (Fin (- (5764607523034235 / 2 ^ 59))) = Fin e"
      using assms unfolding perturbation_alt mul [OF nz] .
    from round64_sign(2) [OF x] show ?thesis
    proof (elim disjE exE conjE)
      assume "round64 ?x = NegInfinity"
      then show ?thesis using e by simp
    next
      assume "round64 ?x = NegZero"
      then show ?thesis
        using e literal_doubles(3) by (simp add: is_double_def)
    next
      fix y assume y: "round64 ?x = Fin y" "y < 0"
      have "js_le (round64 (y + - (5764607523034235 / 2 ^ 59)))
              (Fin (- (5764607523034235 / 2 ^ 59)))"
        using literal_doubles(3) by (rule round64_below) (use y(2) in simp_all)
      then show ?thesis
        using e unfolding y(1) by (simp add: js_le_def)
    qed
  qed
  show "5764607523034235 / 2 ^ 59 \<le> e" if u: "1 < u"
  proof -
    have x: "0 < ?x" "5764607523034235 / 2 ^ 58 \<le> ?x"
      using u by simp_all
    have nz: "u \<noteq> 0" using u by simp
    have e: "js_add (round64 ?x) (Fin (- (5764607523034235 / 2 ^ 59))) = Fin e"
      using assms unfolding perturbation_alt mul [OF nz] .
    have ge: "js_le (Fin (5764607523034235 / 2 ^ 58)) (round64 ?x)"
      using literal_doubles(1) _ x(2) by (rule round64_above) simp
    from round64_sign(1) [OF x(1)] show ?thesis
    proof (elim disjE exE conjE)
      assume "round64 ?x = Infinity"
      then show ?thesis using e by simp
    next
      fix y assume y: "round64 ?x = Fin y" "0 \<le> y"
      have y2: "5764607523034235 / 2 ^ 58 \<le> y"
        using ge unfolding y(1) by (simp add: js_le_def)
      have "js_le (Fin (5764607523034235 / 2 ^ 59))
              (round64 (y + - (5764607523034235 / 2 ^ 59)))"
        using literal_doubles(2) by (rule round64_above) (use y2 in simp_all)
      then show ?thesis
        using e unfolding y(1) by (simp add: js_le_def)
    qed
  qed
qed

lemma perturbation_attained:
  assumes "perturbation u = Fin e"
    and "- (5764607523034235 / 2 ^ 59) \<le> e" and "e \<le> 5764607523034235 / 2 ^ 59"
  shows "\<exists>u'. 0 \<le> u' \<and> u' \<le> 1 \<and> perturbation u' = Fin e"
proof -
  consider "u < 0" | "0 \<le> u" "u \<le> 1" | "1 < u" by linarith
  then show ?thesis
  proof cases
    case 1
    from perturbation_outside(1) [OF assms(1) this] assms(2)
    have "perturbation 0 = Fin e" by (simp add: perturbation_ends)
    then show ?thesis by (intro exI [of _ 0]) simp
  next
    case 2
    then show ?thesis using assms(1) by blast
  next
    case 3
    from perturbation_outside(2) [OF assms(1) this] assms(3)
    have "perturbation 1 = Fin e" by (simp add: perturbation_ends)
    then show ?thesis by (intro exI [of _ 1]) simp
  qed
qed

section \<open>The clamp and the perturbation\<close>

lemma low_risk_features:
  "creditToIncome (derived_features low_risk) = Fin (1 / 2)"
  "debtToIncome (derived_features low_risk) = Fin (1080863910568919 / 2 ^ 52)"
  using round64_normal [of "- 1" "50000 / 100000"] round64_normal [of "14" "2000 * 12"]
    round64_normal [of "- 3" "24000 / 100000"]
  by (simp_all add: derived_features_def low_risk_def scenario_def js_div_def js_mul_def
      round_half_even_def)

lemma low_risk_branches:
  "credit_to_income_impact (creditToIncome (derived_features low_risk)) s = s"
  "debt_to_income_impact (debtToIncome (derived_features low_risk)) s = s"
  "age_impact (age low_risk) s = s"
  "employment_impact (employment_years low_risk) s = s"
  "contract_type_impact (contract_type low_risk) s = s"
  "education_impact (education low_risk) s = js_sub s (lit 0.02)"
  unfolding low_risk_features debt_to_income_impact_def lit_03
  by (simp_all add: credit_to_income_impact_def age_impact_def employment_impact_def
      contract_type_impact_def education_impact_def low_risk_def scenario_def js_gt_def)

lemma low_risk_score:
  "riskScore (derived_features low_risk) low_risk = Fin (- (5764607523034235 / 2 ^ 58))"
  unfolding riskScore_def low_risk_branches js_sub_def lit_002
  using is_double_minus [OF literal_doubles(1)] by (simp add: is_double_def)

lemma low_risk_probability:
  "probability (predictRisk cs (1 / 4) low_risk) = Fin (- (5764607523034235 / 2 ^ 60))"
  using literal_doubles(5)
  by (simp add: predictRisk_def Let_def low_risk_score perturbation_ends clamp_of_score
      is_double_def)

text \<open>
  Claim C3.  \<open>predictRisk\<close> clamps the accumulated score \<open>s\<close> to \<open>max 0 (min 0.4 s)\<close> and
  adds the perturbation to the clamped value, the sum being rounded.  With the
  perturbation a number \<open>e\<close> that JavaScript finds between \<open>-0.01\<close> and \<open>0.01\<close>, the
  probability returned for any applicant record is the clamped score plus \<open>e\<close> and
  JavaScript finds it between \<open>-0.01\<close> and \<open>0.41\<close>; as a real number it is at most 0.41,
  and at least -0.01 if \<open>e\<close> is.  For some record and some such \<open>e\<close> the probability is
  below 0 or above 0.4.  Every such \<open>e\<close> is the perturbation for some value of
  \<open>Math.random()\<close> between 0 and 1, and every value of \<open>Math.random()\<close> between 0 and 1
  gives such an \<open>e\<close>.
\<close>

theorem clamp_precedes_perturbation:
  assumes "perturbation u = Fin e"
    and "js_le (lit (- 0.01)) (Fin e)" and "js_le (Fin e) (lit 0.01)"
  shows "(\<exists>s p. riskScore (derived_features d) d = Fin s
            \<and> baseProbability (riskScore (derived_features d) d) = Fin (max 0 (min 0.4 s))
            \<and> probability (predictRisk cs u d) = Fin p
            \<and> Fin p = js_add (Fin (max 0 (min 0.4 s))) (Fin e)
            \<and> js_le (lit (- 0.01)) (Fin p) \<and> js_le (Fin p) (lit 0.41)
            \<and> (- 0.01 \<le> e \<longrightarrow> - 0.01 \<le> p) \<and> p \<le> 0.41)
       \<and> (\<exists>d' u' e' p'. perturbation u' = Fin e' \<and> - 0.01 \<le> e' \<and> e' \<le> 0.01
            \<and> probability (predictRisk cs u' d') = Fin p' \<and> (p' < 0 \<or> 0.4 < p'))
       \<and> (\<exists>u'. 0 \<le> u' \<and> u' \<le> 1 \<and> perturbation u' = Fin e)
       \<and> (\<forall>u'. 0 \<le> u' \<and> u' \<le> 1 \<longrightarrow>
            (\<exists>e'. perturbation u' = Fin e'
               \<and> js_le (lit (- 0.01)) (Fin e') \<and> js_le (Fin e') (lit 0.01)))"
proof -
  obtain s where s: "riskScore (derived_features d) d = Fin s" "s \<le> 3 / 8"
    "baseProbability (riskScore (derived_features d) d) = Fin (max 0 s)" "is_double (max 0 s)"
    using upper_clamp_inactive [of "derived_features d" d] by blast
  have clamp: "max 0 (min 0.4 s) = max 0 s"
    using s(2) by simp
  have e: "is_double e"
    using assms(1) by (rule perturbation_double)
  have eb: "- (5764607523034235 / 2 ^ 59) \<le> e" "e \<le> 5764607523034235 / 2 ^ 59"
    using assms(2,3) unfolding lit_m001 lit_001 by (simp_all add: js_le_def)
  have lo: "is_double (min e 0)"
    using e is_double_0 by (simp add: min_def)
  have "max 0 s \<le> 3 / 8" "0 \<le> max 0 s"
    using s(2) by simp_all
  moreover have "e \<le> 1 / 64"
    using eb(2) by simp
  ultimately have sum: "min e 0 \<le> max 0 s + e" "max 0 s + e \<le> 25 / 64"
    by linarith+
  have "\<exists>p. js_add (Fin (max 0 s)) (Fin e) = Fin p \<and> is_double p \<and> min e 0 \<le> p \<and> p \<le> 25 / 64"
    by (rule js_add_doubles [OF s(4) e lo dyadic_doubles(7) _ _ sum]) simp_all
  then obtain p where p: "js_add (Fin (max 0 s)) (Fin e) = Fin p" "min e 0 \<le> p" "p \<le> 25 / 64"
    by blast
  have prob: "probability (predictRisk cs u d) = Fin p"
    unfolding predictRisk_def Let_def s(3) assms(1) p(1) by simp
  have low: "- (5764607523034235 / 2 ^ 59) \<le> p"
    using p(2) eb(1) by simp
  have "js_le (lit (- 0.01)) (Fin p)"
    unfolding lit_m001 using low by (simp add: js_le_def)
  moreover have "js_le (Fin p) (lit 0.41)"
    unfolding lit_041 using p(3) by (simp add: js_le_def)
  moreover have "- 0.01 \<le> p" if "- 0.01 \<le> e"
    using that p(2) by simp
  moreover have "p \<le> 0.41"
    using p(3) by simp
  ultimately have "riskScore (derived_features d) d = Fin s
            \<and> baseProbability (riskScore (derived_features d) d) = Fin (max 0 (min 0.4 s))
            \<and> probability (predictRisk cs u d) = Fin p
            \<and> Fin p = js_add (Fin (max 0 (min 0.4 s))) (Fin e)
            \<and> js_le (lit (- 0.01)) (Fin p) \<and> js_le (Fin p) (lit 0.41)
            \<and> (- 0.01 \<le> e \<longrightarrow> - 0.01 \<le> p) \<and> p \<le> 0.41"
    unfolding clamp using s(1,3) prob p(1) [symmetric] by blast
  then have first: "\<exists>s p. riskScore (derived_features d) d = Fin s
            \<and> baseProbability (riskScore (derived_features d) d) = Fin (max 0 (min 0.4 s))
            \<and> probability (predictRisk cs u d) = Fin p
            \<and> Fin p = js_add (Fin (max 0 (min 0.4 s))) (Fin e)
            \<and> js_le (lit (- 0.01)) (Fin p) \<and> js_le (Fin p) (lit 0.41)
            \<and> (- 0.01 \<le> e \<longrightarrow> - 0.01 \<le> p) \<and> p \<le> 0.41"
    by blast
  have second: "\<exists>d' u' e' p'. perturbation u' = Fin e' \<and> - 0.01 \<le> e' \<and> e' \<le> 0.01
            \<and> probability (predictRisk cs u' d') = Fin p' \<and> (p' < 0 \<or> 0.4 < p')"
    using low_risk_probability [of cs] perturbation_ends(4)
    by (intro exI [of _ low_risk] exI [of _ "1 / 4"]
          exI [of _ "- (5764607523034235 / 2 ^ 60)"]) simp
  have third: "\<exists>u'. 0 \<le> u' \<and> u' \<le> 1 \<and> perturbation u' = Fin e"
    using assms(1) eb by (rule perturbation_attained)
  have fourth: "\<exists>e'. perturbation u' = Fin e'
               \<and> js_le (lit (- 0.01)) (Fin e') \<and> js_le (Fin e') (lit 0.01)"
    if "0 \<le> u' \<and> u' \<le> 1" for u'
    unfolding lit_m001 lit_001
    using perturbation_range [of u'] that by (auto simp: js_le_def)
  from first second third fourth show ?thesis by blast
qed

theorem clamp_precedes_perturbation_witness:
  "perturbation (1 / 4) = Fin (- (5764607523034235 / 2 ^ 60))
   \<and> js_le (lit (- 0.01)) (Fin (- (5764607523034235 / 2 ^ 60)))
   \<and> js_le (Fin (- (5764607523034235 / 2 ^ 60))) (lit 0.01)
   \<and> (\<exists>s p. riskScore (derived_features low_risk) low_risk = Fin s
         \<and> probability (predictRisk ordered_cutoffs (1 / 4) low_risk) = Fin p
         \<and> Fin p = js_add (Fin (max 0 (min 0.4 s))) (Fin (- (5764607523034235 / 2 ^ 60)))
         \<and> - 0.01 \<le> p \<and> p \<le> 0.41)"
proof -
  have h: "perturbation (1 / 4) = Fin (- (5764607523034235 / 2 ^ 60))"
    by (rule perturbation_ends)
  have l: "js_le (lit (- 0.01)) (Fin (- (5764607523034235 / 2 ^ 60)))"
    unfolding lit_m001 by (simp add: js_le_def)
  have r: "js_le (Fin (- (5764607523034235 / 2 ^ 60))) (lit 0.01)"
    unfolding lit_001 by (simp add: js_le_def)
  have b: "- 0.01 \<le> (- (5764607523034235 / 2 ^ 60) :: real)"
    by simp
  from clamp_precedes_perturbation [OF h l r, of low_risk ordered_cutoffs, THEN conjunct1] b
  have "\<exists>s p. riskScore (derived_features low_risk) low_risk = Fin s
         \<and> probability (predictRisk ordered_cutoffs (1 / 4) low_risk) = Fin p
         \<and> Fin p = js_add (Fin (max 0 (min 0.4 s))) (Fin (- (5764607523034235 / 2 ^ 60)))
         \<and> - 0.01 \<le> p \<and> p \<le> 0.41"
    by blast
  with h l r show ?thesis by blast
qed

section \<open>The bucket classifier\<close>

text \<open>
  Claim C4.  Let the cutoffs be ordered, cutoff A at most cutoff B.  For every
  probability \<open>p\<close> the classifier returns A iff \<open>p\<close> is at most cutoff A; B iff \<open>p\<close> is
  above cutoff A and at most cutoff B; C iff \<open>p\<close> is above cutoff B and at most cutoff C;
  and D otherwise, that is iff \<open>p\<close> is at most none of the three cutoffs.  The comparison
  is \<open>\<le>\<close>: a probability equal to a cutoff gets the bucket of that cutoff, the safer one.
  The result is one of A, B, C, D.
\<close>

theorem bucket_is_first_match:
  assumes "A cs \<le> B cs"
  shows "(assign_bucket cs p = ''A'') = js_le p (Fin (A cs))
       \<and> (assign_bucket cs p = ''B'') = (js_lt (Fin (A cs)) p \<and> js_le p (Fin (B cs)))
       \<and> (assign_bucket cs p = ''C'') = (js_lt (Fin (B cs)) p \<and> js_le p (Fin (C cs)))
       \<and> (assign_bucket cs p = ''D'') =
           (\<not> js_le p (Fin (A cs))
            \<and> \<not> (js_lt (Fin (A cs)) p \<and> js_le p (Fin (B cs)))
            \<and> \<not> (js_lt (Fin (B cs)) p \<and> js_le p (Fin (C cs))))
       \<and> (assign_bucket cs p = ''D'') =
           (\<not> js_le p (Fin (A cs)) \<and> \<not> js_le p (Fin (B cs)) \<and> \<not> js_le p (Fin (C cs)))
       \<and> assign_bucket cs p \<in> {''A'', ''B'', ''C'', ''D''}
       \<and> assign_bucket cs (Fin (A cs)) = ''A''
       \<and> (A cs < B cs \<longrightarrow> assign_bucket cs (Fin (B cs)) = ''B'')
       \<and> (B cs < C cs \<longrightarrow> assign_bucket cs (Fin (C cs)) = ''C'')"
  using assms by (cases p) (auto simp: assign_bucket_def js_le_def)

theorem bucket_is_first_match_witness:
  "A ordered_cutoffs \<le> B ordered_cutoffs
   \<and> assign_bucket ordered_cutoffs (Fin 0.2) = ''C''
   \<and> js_lt (Fin (B ordered_cutoffs)) (Fin 0.2) \<and> js_le (Fin 0.2) (Fin (C ordered_cutoffs))
   \<and> assign_bucket ordered_cutoffs (Fin 0.1) = ''B''
   \<and> assign_bucket ordered_cutoffs (Fin 0.25) = ''D''"
proof -
  have h: "A ordered_cutoffs \<le> B ordered_cutoffs"
    by (simp add: ordered_cutoffs_def)
  have c: "js_lt (Fin (B ordered_cutoffs)) (Fin 0.2) \<and> js_le (Fin 0.2) (Fin (C ordered_cutoffs))"
    by (simp add: ordered_cutoffs_def js_le_def)
  have b: "js_lt (Fin (A ordered_cutoffs)) (Fin 0.1) \<and> js_le (Fin 0.1) (Fin (B ordered_cutoffs))"
    by (simp add: ordered_cutoffs_def js_le_def)
  have d: "\<not> js_le (Fin 0.25) (Fin (A ordered_cutoffs))
     \<and> \<not> js_le (Fin 0.25) (Fin (B ordered_cutoffs))
     \<and> \<not> js_le (Fin 0.25) (Fin (C ordered_cutoffs))"
    by (simp add: ordered_cutoffs_def js_le_def)
  from bucket_is_first_match [OF h, of "Fin 0.2"] c
  have 1: "assign_bucket ordered_cutoffs (Fin 0.2) = ''C''" by blast
  from bucket_is_first_match [OF h, of "Fin 0.1"] b
  have 2: "assign_bucket ordered_cutoffs (Fin 0.1) = ''B''" by blast
  from bucket_is_first_match [OF h, of "Fin 0.25"] d
  have 3: "assign_bucket ordered_cutoffs (Fin 0.25) = ''D''" by blast
  from h c 1 2 3 show ?thesis by blast
qed

lemma bucket_monotone_general:
  "js_lt p1 p2 \<Longrightarrow> bucket_rank (assign_bucket cs p1) \<le> bucket_rank (assign_bucket cs p2)"
  by (cases p1; cases p2) (auto simp: assign_bucket_def js_le_def bucket_rank_def)

text \<open>
  Claim C5.  For cutoffs with cutoff A below cutoff B below cutoff C, and probabilities
  \<open>p1 < p2\<close>, the bucket of \<open>p2\<close> is never safer, in the order A, B, C, D, than the
  bucket of \<open>p1\<close>.  (The proof does not use the order of the cutoffs.)
\<close>

theorem bucket_monotone:
  assumes "A cs < B cs" and "B cs < C cs" and "js_lt p1 p2"
  shows "bucket_rank (assign_bucket cs p1) \<le> bucket_rank (assign_bucket cs p2)"
  using assms(3) by (rule bucket_monotone_general)

theorem bucket_monotone_witness:
  "A ordered_cutoffs < B ordered_cutoffs \<and> B ordered_cutoffs < C ordered_cutoffs
   \<and> js_lt (Fin 0.05) (Fin 0.12)
   \<and> assign_bucket ordered_cutoffs (Fin 0.05) = ''A''
   \<and> assign_bucket ordered_cutoffs (Fin 0.12) = ''C''
   \<and> bucket_rank (assign_bucket ordered_cutoffs (Fin 0.05))
       \<le> bucket_rank (assign_bucket ordered_cutoffs (Fin 0.12))"
proof -
  have h: "A ordered_cutoffs < B ordered_cutoffs" "B ordered_cutoffs < C ordered_cutoffs"
    "js_lt (Fin 0.05) (Fin 0.12)"
    by (simp_all add: ordered_cutoffs_def)
  from bucket_monotone [OF h] h show ?thesis
    by (simp add: assign_bucket_def ordered_cutoffs_def js_le_def)
qed

section \<open>Inert inputs\<close>

lemma scenario_prediction:
  "predictRisk ordered_cutoffs (1 / 2) scenario =
     \<lparr> probability = Fin (8646911284551353 / 2 ^ 56), bucket = ''C'' \<rparr>"
  unfolding predictRisk_def Let_def scenario_score scenario_clamp perturbation_ends
  using lit_is_double [OF scenario_score_decimal]
  by (simp add: is_double_def assign_bucket_def ordered_cutoffs_def js_le_def)

text \<open>
  Claim C9.  With the value of \<open>Math.random()\<close> fixed, \<open>predictRisk\<close> is a function of the
  applicant record, and two records that agree on every field but the gender get the
  same probability and the same bucket.  The annuity-to-income ratio is computed but
  not read: any other value in its place leaves the score unchanged.
\<close>

theorem gender_and_annuity_ratio_inert:
  assumes "annual_income d1 = annual_income d2" and "credit_amount d1 = credit_amount d2"
    and "annuity d1 = annuity d2" and "age d1 = age d2"
    and "employment_years d1 = employment_years d2"
    and "contract_type d1 = contract_type d2" and "education d1 = education d2"
  shows "predictRisk cs u d1 = predictRisk cs u d2
       \<and> riskScore (derived_features d1 \<lparr> annuityToIncome := x \<rparr>) d1 =
           riskScore (derived_features d1) d1"
  using assms by (simp add: predictRisk_def Let_def riskScore_def derived_features_def)

theorem gender_and_annuity_ratio_inert_witness:
  "predictRisk ordered_cutoffs (1 / 2) (scenario \<lparr> gender := ''M'' \<rparr>) =
     predictRisk ordered_cutoffs (1 / 2) scenario
   \<and> gender (scenario \<lparr> gender := ''M'' \<rparr>) \<noteq> gender scenario
   \<and> predictRisk ordered_cutoffs (1 / 2) scenario =
       \<lparr> probability = Fin (8646911284551353 / 2 ^ 56), bucket = ''C'' \<rparr>"
  using gender_and_annuity_ratio_inert
          [of "scenario \<lparr> gender := ''M'' \<rparr>" scenario ordered_cutoffs "1 / 2"]
        scenario_prediction
  by (simp add: scenario_def)

section \<open>Validation of the payload\<close>

lemma check_fields_object:
  "check_fields rt fs (JObj m) =
   (case find (\<lambda>f. m f = None) fs of
      None \<Rightarrow> Inr ()
    | Some f \<Rightarrow> Inl (Error (''Missing required field: '' @ f)))"
  by (induction fs) auto


lemma find_none_missing:
  "\<forall>g \<in> set fs. m g \<noteq> None \<Longrightarrow> find (\<lambda>f. m f = None) fs = None"
  by (induction fs) auto

lemma try_block_object:
  "b ''data'' = Some (JObj m) \<Longrightarrow>
   try_block rt cs u (Inr (JObj b)) =
   (case check_fields rt requiredFields (JObj m) of
      Inl e \<Rightarrow> Inl e
    | Inr ok \<Rightarrow> Inr (predictRisk cs u (as_applicant rt (JObj m))))"
  by (simp add: try_block_def)


lemma try_block_accepts:
  assumes "b ''data'' = Some (JObj m)"
    and "\<forall>g \<in> set requiredFields. m g \<noteq> None"
  shows "try_block rt cs u (Inr (JObj b)) = Inr (predictRisk cs u (as_applicant rt (JObj m)))"
  using find_none_missing [OF assms(2)]
  by (simp add: try_block_object [of b m, OF assms(1)] check_fields_object)




lemma scenario_data_complete: "\<forall>g \<in> set requiredFields. scenario_data g \<noteq> None"
  by (simp add: requiredFields_def scenario_data_def)

lemma scenario_data_applicant: "as_applicant rt (JObj scenario_data) = scenario"
  by (simp add: as_applicant_def scenario_data_def scenario_def)


lemma post_request: "req_method (post v) \<noteq> ''OPTIONS''" "json (post v) = Inr v"
  by (simp_all add: post_def)



section \<open>The outcomes of the handler\<close>

lemma try_block_result: "try_block rt cs u x = Inr r \<Longrightarrow> \<exists>d. r = predictRisk cs u d"
  by (auto simp: try_block_def split: sum.splits option.splits if_splits)

lemma prediction_bucket: "bucket (predictRisk cs u d) \<in> {''A'', ''B'', ''C'', ''D''}"
  by (simp add: predictRisk_def Let_def assign_bucket_def)

text \<open>For a value of \<open>Math.random()\<close> between 0 and 1 the probability is a finite
  number.\<close>

lemma probability_finite:
  assumes "0 \<le> u" and "u \<le> 1"
  shows "\<exists>p. probability (predictRisk cs u d) = Fin p
           \<and> - (5764607523034235 / 2 ^ 59) \<le> p \<and> p \<le> 25 / 64"
proof -
  obtain s where s: "s \<le> 3 / 8"
    "baseProbability (riskScore (derived_features d) d) = Fin (max 0 s)" "is_double (max 0 s)"
    using upper_clamp_inactive [of "derived_features d" d] by blast
  obtain e where e: "perturbation u = Fin e" "is_double e"
    "- (5764607523034235 / 2 ^ 59) \<le> e" "e \<le> 5764607523034235 / 2 ^ 59"
    using perturbation_range [OF assms] by blast
  have "max 0 s \<le> 3 / 8" "0 \<le> max 0 s"
    using s(1) by simp_all
  moreover have "e \<le> 1 / 64"
    using e(4) by simp
  ultimately have sum: "- (5764607523034235 / 2 ^ 59) \<le> max 0 s + e" "max 0 s + e \<le> 25 / 64"
    using e(3) by linarith+
  have "\<exists>p. js_add (Fin (max 0 s)) (Fin e) = Fin p \<and> is_double p
           \<and> - (5764607523034235 / 2 ^ 59) \<le> p \<and> p \<le> 25 / 64"
    by (rule js_add_doubles [OF s(3) e(2) literal_doubles(3) dyadic_doubles(7) _ _ sum])
       simp_all
  then show ?thesis
    unfolding predictRisk_def Let_def s(2) e(1) by auto
qed

lemma try_block_no_data:
  "v \<noteq> JNull \<Longrightarrow> property v ''data'' = None \<Longrightarrow>
   try_block rt cs u (Inr v) = Inl (Error ''Missing data field in request'')"
  by (cases v) (simp_all add: try_block_def)

text \<open>
  Claim C7, as stated, fails: a request with the method OPTIONS is answered with status
  200 and no body at all, which is neither a prediction nor a structured error.  And a
  body that is \<open>null\<close>, which has no data payload, fails with the message of the
  \<open>TypeError\<close> that the read of \<open>body.data\<close> throws, not with "Missing data field
  in request".
\<close>

theorem preflight_is_a_third_outcome:
  "status (serve_handler sample_runtime ordered_cutoffs (1 / 2)
      \<lparr> req_method = ''OPTIONS'', json = Inl (Error ''Unexpected end of JSON input'') \<rparr>) = 200
   \<and> body (serve_handler sample_runtime ordered_cutoffs (1 / 2)
      \<lparr> req_method = ''OPTIONS'', json = Inl (Error ''Unexpected end of JSON input'') \<rparr>) = None
   \<and> property JNull ''data'' = None
   \<and> body (serve_handler sample_runtime ordered_cutoffs (1 / 2) (post JNull)) =
       Some (JObj [''error'' \<mapsto>
                     JStr (''Cannot read properties of null (reading '' @ [CHR 0x27]
                            @ ''data'' @ [CHR 0x27] @ '')''),
                   ''details'' \<mapsto> JStr ''Failed to process prediction request''])"
  by (simp add: serve_handler_def try_block_def post_def error_response_def
      error_message_def sample_runtime_def)

text \<open>
  Claim C7, amended.  For every request other than an OPTIONS preflight the handler
  either succeeds, with status 200 and a body that holds exactly a probability and a
  bucket among A, B, C, D; or it fails, with status 500 and a body that holds the message
  of what was thrown and the fixed details.  There is no third outcome.  The probability
  is a finite number whenever \<open>Math.random()\<close> returns a value between 0 and 1, as it
  does.  A parsed body other than \<open>null\<close> that has no data payload fails with the
  message "Missing data field in request".
\<close>

theorem handler_succeeds_or_fails:
  assumes "req_method req \<noteq> ''OPTIONS''"
  shows "((\<exists>result. try_block rt cs u (json req) = Inr result
             \<and> bucket result \<in> {''A'', ''B'', ''C'', ''D''}
             \<and> serve_handler rt cs u req =
                 \<lparr> status = 200,
                   headers = corsHeaders @ [(''Content-Type'', ''application/json'')],
                   body = Some (JObj [''probability'' \<mapsto> stringify_number (probability result),
                                      ''bucket'' \<mapsto> JStr (bucket result)]) \<rparr>
             \<and> (0 \<le> u \<and> u \<le> 1 \<longrightarrow>
                  (\<exists>p. probability result = Fin p
                     \<and> stringify_number (probability result) = JNum (Fin p))))
          \<or> (\<exists>error. try_block rt cs u (json req) = Inl error
             \<and> serve_handler rt cs u req =
                 \<lparr> status = 500,
                   headers = corsHeaders @ [(''Content-Type'', ''application/json'')],
                   body = Some (JObj [''error'' \<mapsto> JStr (error_message error),
                                      ''details'' \<mapsto> JStr ''Failed to process prediction request'']) \<rparr>))
       \<and> (\<forall>v. json req = Inr v \<and> v \<noteq> JNull \<and> property v ''data'' = None \<longrightarrow>
             status (serve_handler rt cs u req) = 500
             \<and> body (serve_handler rt cs u req) =
                 Some (JObj [''error'' \<mapsto> JStr ''Missing data field in request'',
                             ''details'' \<mapsto> JStr ''Failed to process prediction request'']))"
proof (intro conjI allI impI)
  show "(\<exists>result. try_block rt cs u (json req) = Inr result
             \<and> bucket result \<in> {''A'', ''B'', ''C'', ''D''}
             \<and> serve_handler rt cs u req =
                 \<lparr> status = 200,
                   headers = corsHeaders @ [(''Content-Type'', ''application/json'')],
                   body = Some (JObj [''probability'' \<mapsto> stringify_number (probability result),
                                      ''bucket'' \<mapsto> JStr (bucket result)]) \<rparr>
             \<and> (0 \<le> u \<and> u \<le> 1 \<longrightarrow>
                  (\<exists>p. probability result = Fin p
                     \<and> stringify_number (probability result) = JNum (Fin p))))
          \<or> (\<exists>error. try_block rt cs u (json req) = Inl error
             \<and> serve_handler rt cs u req =
                 \<lparr> status = 500,
                   headers = corsHeaders @ [(''Content-Type'', ''application/json'')],
                   body = Some (JObj [''error'' \<mapsto> JStr (error_message error),
                                      ''details'' \<mapsto> JStr ''Failed to process prediction request'']) \<rparr>)"
  proof (cases "try_block rt cs u (json req)")
    case (Inl error)
    then show ?thesis
      using assms by (simp add: serve_handler_def error_response_def)
  next
    case (Inr result)
    then obtain d where d: "result = predictRisk cs u d"
      using try_block_result by blast
    have b: "bucket result \<in> {''A'', ''B'', ''C'', ''D''}"
      unfolding d by (rule prediction_bucket)
    have r: "serve_handler rt cs u req =
        \<lparr> status = 200,
          headers = corsHeaders @ [(''Content-Type'', ''application/json'')],
          body = Some (JObj [''probability'' \<mapsto> stringify_number (probability result),
                             ''bucket'' \<mapsto> JStr (bucket result)]) \<rparr>"
      using assms Inr by (simp add: serve_handler_def success_response_def stringify_result_def)
    have p: "\<exists>p. probability result = Fin p
        \<and> stringify_number (probability result) = JNum (Fin p)" if "0 \<le> u \<and> u \<le> 1"
      using probability_finite [of u cs d] that unfolding d by auto
    from Inr b r p show ?thesis by blast
  qed
next
  fix v
  assume "json req = Inr v \<and> v \<noteq> JNull \<and> property v ''data'' = None"
  then have r: "serve_handler rt cs u req =
      error_response (Error ''Missing data field in request'')"
    using assms by (simp add: serve_handler_def try_block_no_data)
  show "status (serve_handler rt cs u req) = 500"
    by (simp add: r error_response_def)
  show "body (serve_handler rt cs u req) =
          Some (JObj [''error'' \<mapsto> JStr ''Missing data field in request'',
                      ''details'' \<mapsto> JStr ''Failed to process prediction request''])"
    by (simp add: r error_response_def error_message_def)
qed

lemma scenario_try_block:
  "try_block sample_runtime ordered_cutoffs (1 / 2)
     (json (post (JObj [''data'' \<mapsto> JObj scenario_data]))) =
   Inr \<lparr> probability = Fin (8646911284551353 / 2 ^ 56), bucket = ''C'' \<rparr>"
proof -
  have d: "[''data'' \<mapsto> JObj scenario_data] ''data'' = Some (JObj scenario_data)"
    by simp
  show ?thesis
    unfolding post_request
      try_block_accepts [of "[''data'' \<mapsto> JObj scenario_data]" scenario_data,
        OF d scenario_data_complete]
      scenario_data_applicant scenario_prediction ..
qed

theorem handler_succeeds_or_fails_witness:
  "req_method (post (JObj Map.empty)) \<noteq> ''OPTIONS''
   \<and> property (JObj Map.empty) ''data'' = None
   \<and> body (serve_handler sample_runtime ordered_cutoffs (1 / 2) (post (JObj Map.empty))) =
       Some (JObj [''error'' \<mapsto> JStr ''Missing data field in request'',
                   ''details'' \<mapsto> JStr ''Failed to process prediction request''])
   \<and> status (serve_handler sample_runtime ordered_cutoffs (1 / 2) (post (JObj Map.empty))) = 500
   \<and> (\<exists>result p.
         try_block sample_runtime ordered_cutoffs (1 / 2)
           (json (post (JObj [''data'' \<mapsto> JObj scenario_data]))) = Inr result
         \<and> probability result = Fin p
         \<and> status (serve_handler sample_runtime ordered_cutoffs (1 / 2)
              (post (JObj [''data'' \<mapsto> JObj scenario_data]))) = 200)"
proof -
  have h: "req_method (post v) \<noteq> ''OPTIONS''" for v
    by (simp add: post_def)
  from handler_succeeds_or_fails [OF h, of sample_runtime ordered_cutoffs "1 / 2" "JObj Map.empty"]
  have a: "status (serve_handler sample_runtime ordered_cutoffs (1 / 2) (post (JObj Map.empty))) = 500
    \<and> body (serve_handler sample_runtime ordered_cutoffs (1 / 2) (post (JObj Map.empty))) =
       Some (JObj [''error'' \<mapsto> JStr ''Missing data field in request'',
                   ''details'' \<mapsto> JStr ''Failed to process prediction request''])"
    by (simp add: post_def)
  have u: "(0::real) \<le> 1 / 2 \<and> (1 / 2 :: real) \<le> 1"
    by simp
  from handler_succeeds_or_fails
    [OF h, of sample_runtime ordered_cutoffs "1 / 2" "JObj [''data'' \<mapsto> JObj scenario_data]",
      THEN conjunct1]
  have b: "\<exists>result p.
         try_block sample_runtime ordered_cutoffs (1 / 2)
           (json (post (JObj [''data'' \<mapsto> JObj scenario_data]))) = Inr result
         \<and> probability result = Fin p
         \<and> status (serve_handler sample_runtime ordered_cutoffs (1 / 2)
              (post (JObj [''data'' \<mapsto> JObj scenario_data]))) = 200"
  proof (elim disjE exE conjE)
    fix result
    assume "try_block sample_runtime ordered_cutoffs (1 / 2)
        (json (post (JObj [''data'' \<mapsto> JObj scenario_data]))) = Inr result"
      and "serve_handler sample_runtime ordered_cutoffs (1 / 2)
          (post (JObj [''data'' \<mapsto> JObj scenario_data])) =
        \<lparr> status = 200,
          headers = corsHeaders @ [(''Content-Type'', ''application/json'')],
          body = Some (JObj [''probability'' \<mapsto> stringify_number (probability result),
                             ''bucket'' \<mapsto> JStr (bucket result)]) \<rparr>"
      and "(0::real) \<le> 1 / 2 \<and> (1 / 2 :: real) \<le> 1 \<longrightarrow>
            (\<exists>p. probability result = Fin p
               \<and> stringify_number (probability result) = JNum (Fin p))"
    then show ?thesis using u by auto
  next
    fix error
    assume "try_block sample_runtime ordered_cutoffs (1 / 2)
        (json (post (JObj [''data'' \<mapsto> JObj scenario_data]))) = Inl error"
    then show ?thesis unfolding scenario_try_block by simp
  qed
  from a b h [of "JObj Map.empty"] show ?thesis by simp
qed

text \<open>
  Claim C10.  The handler tests the data payload for truthiness.  A request that is
  not a preflight and whose body has the key \<open>data\<close> bound to a falsy value, such as
  \<open>null\<close>, 0, \<open>false\<close> or the empty string, fails with status 500 and the message
  "Missing data field in request"; the response is the one for the same body without the
  key.
\<close>

theorem falsy_data_is_missing_data:
  assumes "req_method req \<noteq> ''OPTIONS''" and "json req = Inr (JObj b)"
    and "b ''data'' = Some v" and "\<not> ToBoolean v"
  shows "status (serve_handler rt cs u req) = 500
       \<and> body (serve_handler rt cs u req) =
           Some (JObj [''error'' \<mapsto> JStr ''Missing data field in request'',
                       ''details'' \<mapsto> JStr ''Failed to process prediction request''])
       \<and> serve_handler rt cs u req =
           serve_handler rt cs u (req \<lparr> json := Inr (JObj (b(''data'' := None))) \<rparr>)"
  using assms
  by (simp add: serve_handler_def try_block_def error_response_def error_message_def)

theorem falsy_data_is_missing_data_witness:
  "(\<not> ToBoolean JNull \<and> \<not> ToBoolean (JNum (Fin 0)) \<and> \<not> ToBoolean (JBool False)
     \<and> \<not> ToBoolean (JStr ''''))
   \<and> body (serve_handler sample_runtime ordered_cutoffs (1 / 2) (post (JObj [''data'' \<mapsto> JNull]))) =
       Some (JObj [''error'' \<mapsto> JStr ''Missing data field in request'',
                   ''details'' \<mapsto> JStr ''Failed to process prediction request''])
   \<and> body (serve_handler sample_runtime ordered_cutoffs (1 / 2)
             (post (JObj [''data'' \<mapsto> JNum (Fin 0)]))) =
       Some (JObj [''error'' \<mapsto> JStr ''Missing data field in request'',
                   ''details'' \<mapsto> JStr ''Failed to process prediction request''])
   \<and> body (serve_handler sample_runtime ordered_cutoffs (1 / 2)
             (post (JObj [''data'' \<mapsto> JBool False]))) =
       Some (JObj [''error'' \<mapsto> JStr ''Missing data field in request'',
                   ''details'' \<mapsto> JStr ''Failed to process prediction request''])
   \<and> body (serve_handler sample_runtime ordered_cutoffs (1 / 2)
             (post (JObj [''data'' \<mapsto> JStr '''']))) =
       Some (JObj [''error'' \<mapsto> JStr ''Missing data field in request'',
                   ''details'' \<mapsto> JStr ''Failed to process prediction request''])"
proof -
  have falsy: "\<not> ToBoolean JNull" "\<not> ToBoolean (JNum (Fin 0))" "\<not> ToBoolean (JBool False)"
    "\<not> ToBoolean (JStr '''')"
    by simp_all
  have key: "[''data'' \<mapsto> w] ''data'' = Some w" for w :: json_value
    by simp
  have r: "body (serve_handler sample_runtime ordered_cutoffs (1 / 2)
                  (post (JObj [''data'' \<mapsto> w]))) =
           Some (JObj [''error'' \<mapsto> JStr ''Missing data field in request'',
                       ''details'' \<mapsto> JStr ''Failed to process prediction request''])"
    if "\<not> ToBoolean w" for w
    using falsy_data_is_missing_data
      [of "post (JObj [''data'' \<mapsto> w])" "[''data'' \<mapsto> w]" w
        sample_runtime ordered_cutoffs "1 / 2", OF post_request key that]
    by (rule conjunct2 [THEN conjunct1])
  from r [OF falsy(1)] r [OF falsy(2)] r [OF falsy(3)] r [OF falsy(4)] falsy
  show ?thesis by blast
qed

section \<open>An income of zero\<close>


















end
